theory Spec2Isabelle
  imports Main "HOL-Library.Multiset"
begin

section \<open>Exceptions and journal\<close>

text \<open>
  The exceptions the bot can meet. The first four are raised by the database driver
  (\<open>psycopg2\<close>), \<open>AttributeError\<close>, \<open>ValueError\<close> and \<open>IndexError\<close> by Python
  itself, \<open>TelegramError\<close> by the messaging transport. All of them are subclasses of
  \<open>Exception\<close>, so a bare \<open>except Exception\<close> catches each of them.
\<close>

datatype exn =
    OperationalError
  | IntegrityError
  | InterfaceError
  | DataError
  | AttributeError
  | ValueError
  | IndexError
  | TelegramError

subsection \<open>Rows of the three tables\<close>

text \<open>
  \<open>CREATE TABLE categories (id TEXT PRIMARY KEY, name TEXT NOT NULL UNIQUE,
  created_by BIGINT NOT NULL, created_at TIMESTAMP DEFAULT CURRENT_TIMESTAMP)\<close>.
  Timestamps are natural numbers (ticks of the backend clock).
\<close>

record category_row =
  cr_id :: string
  cr_name :: string
  cr_created_by :: int
  cr_created_at :: nat

text \<open>
  \<open>CREATE TABLE files (id SERIAL PRIMARY KEY, category_id TEXT NOT NULL,
  file_id TEXT NOT NULL UNIQUE, file_name, file_size, file_type, caption TEXT,
  upload_date TIMESTAMP DEFAULT CURRENT_TIMESTAMP, FOREIGN KEY (category_id)
  REFERENCES categories (id) ON DELETE CASCADE)\<close>. The caption column is nullable.
\<close>

record file_row =
  fr_id :: nat
  fr_category_id :: string
  fr_file_id :: string
  fr_file_name :: string
  fr_file_size :: int
  fr_file_type :: string
  fr_caption :: "string option"
  fr_upload_date :: nat

text \<open>
  \<open>CREATE TABLE channels (id SERIAL PRIMARY KEY, channel_id TEXT NOT NULL UNIQUE,
  channel_name TEXT NOT NULL, invite_link TEXT NOT NULL, created_at TIMESTAMP ...)\<close>.
\<close>

record channel_row =
  chr_id :: nat
  chr_channel_id :: string
  chr_channel_name :: string
  chr_invite_link :: string
  chr_created_at :: nat

text \<open>
  The dictionary \<open>extract_file_info\<close> builds for an uploaded file and the one the read
  operations return for a stored file: the keys \<open>file_id\<close>, \<open>file_name\<close>,
  \<open>file_size\<close>, \<open>file_type\<close> and \<open>caption\<close>.
\<close>

record file_info =
  file_id :: string
  file_name :: string
  file_size :: int
  file_type :: string
  caption :: string

text \<open>
  The content of the database. Each table is the list of its rows in the order they
  were inserted; the two counters are the sequences behind the \<open>SERIAL\<close> columns.
\<close>

record database =
  categories :: "category_row list"
  files :: "file_row list"
  channels :: "channel_row list"
  files_seq :: nat
  channels_seq :: nat

subsection \<open>The SQL statements of the bot\<close>

text \<open>One constructor per statement text in \<open>DatabaseManager\<close>, with its parameters.\<close>

datatype stmt =
    InsertCategory string string int
  | SelectCategories
  | SelectFilesIn "string list"
  | SelectCategory string
  | SelectFilesOf string
  | DeleteCategory string
  | InsertFile string file_info
  | InsertFileIgnore string file_info
  | SelectFileAt string int
  | DeleteFileById nat
  | InsertChannel string string string
  | SelectChannels
  | DeleteChannel string

datatype row =
    CatRow category_row
  | FileRow file_row
  | ChanRow channel_row

text \<open>
  \<open>ORDER BY upload_date ASC\<close> and \<open>ORDER BY created_at ASC\<close> are a stable sort of the
  selected rows, \<open>ORDER BY created_at DESC\<close> its reverse. SQL leaves the order of rows
  with equal timestamps to the backend; the model fixes the insertion order for them.
\<close>

definition order_by_upload_date :: "file_row list \<Rightarrow> file_row list" where
  "order_by_upload_date rs = sort_key fr_upload_date rs"

definition order_by_created_at_desc :: "category_row list \<Rightarrow> category_row list" where
  "order_by_created_at_desc rs = rev (sort_key cr_created_at rs)"

definition order_by_created_at :: "channel_row list \<Rightarrow> channel_row list" where
  "order_by_created_at rs = sort_key chr_created_at rs"

definition files_of :: "string \<Rightarrow> database \<Rightarrow> file_row list" where
  "files_of cid d = order_by_upload_date (filter (\<lambda>f. fr_category_id f = cid) (files d))"

definition new_file_row :: "nat \<Rightarrow> nat \<Rightarrow> string \<Rightarrow> file_info \<Rightarrow> file_row" where
  "new_file_row i t cid fi =
     \<lparr>fr_id = i, fr_category_id = cid, fr_file_id = file_id fi,
      fr_file_name = file_name fi, fr_file_size = file_size fi,
      fr_file_type = file_type fi, fr_caption = Some (caption fi),
      fr_upload_date = t\<rparr>"

text \<open>
  What one statement does to the database at transaction time \<open>t\<close>: the rows it returns
  and the new content, or the exception the backend raises. The constraints of the schema
  are checked here: primary key and \<open>UNIQUE(name)\<close> on categories, \<open>UNIQUE(file_id)\<close>
  and the foreign key on files, \<open>UNIQUE(channel_id)\<close> on channels. A \<open>SERIAL\<close>
  column draws its value before the row is checked, so a skipped row uses one up.
\<close>

fun run_stmt :: "nat \<Rightarrow> stmt \<Rightarrow> database \<Rightarrow> exn + (row list \<times> database)" where
  "run_stmt t (InsertCategory cid name creator) d =
     (if cid \<in> cr_id ` set (categories d) \<or> name \<in> cr_name ` set (categories d)
      then Inl IntegrityError
      else Inr ([], d\<lparr>categories := categories d @
             [\<lparr>cr_id = cid, cr_name = name, cr_created_by = creator, cr_created_at = t\<rparr>]\<rparr>))"
| "run_stmt t SelectCategories d =
     Inr (map CatRow (order_by_created_at_desc (categories d)), d)"
| "run_stmt t (SelectFilesIn cids) d =
     Inr (map FileRow (order_by_upload_date
            (filter (\<lambda>f. fr_category_id f \<in> set cids) (files d))), d)"
| "run_stmt t (SelectCategory cid) d =
     Inr (map CatRow (filter (\<lambda>c. cr_id c = cid) (categories d)), d)"
| "run_stmt t (SelectFilesOf cid) d = Inr (map FileRow (files_of cid d), d)"
| "run_stmt t (DeleteCategory cid) d =
     Inr ([], d\<lparr>categories := filter (\<lambda>c. cr_id c \<noteq> cid) (categories d),
               files := filter (\<lambda>f. fr_category_id f \<noteq> cid) (files d)\<rparr>)"
| "run_stmt t (InsertFile cid fi) d =
     (if file_id fi \<in> fr_file_id ` set (files d) then Inl IntegrityError
      else if cid \<notin> cr_id ` set (categories d) then Inl IntegrityError
      else Inr ([], d\<lparr>files := files d @ [new_file_row (files_seq d) t cid fi],
                     files_seq := Suc (files_seq d)\<rparr>))"
| "run_stmt t (InsertFileIgnore cid fi) d =
     (if file_id fi \<in> fr_file_id ` set (files d)
      then Inr ([], d\<lparr>files_seq := Suc (files_seq d)\<rparr>)
      else if cid \<notin> cr_id ` set (categories d) then Inl IntegrityError
      else Inr ([], d\<lparr>files := files d @ [new_file_row (files_seq d) t cid fi],
                     files_seq := Suc (files_seq d)\<rparr>))"
| "run_stmt t (SelectFileAt cid off) d =
     (if off < 0 then Inl DataError
      else Inr (map FileRow (take 1 (drop (nat off) (files_of cid d))), d))"
| "run_stmt t (DeleteFileById i) d =
     Inr ([], d\<lparr>files := filter (\<lambda>f. fr_id f \<noteq> i) (files d)\<rparr>)"
| "run_stmt t (InsertChannel chid name link) d =
     (if chid \<in> chr_channel_id ` set (channels d) then Inl IntegrityError
      else Inr ([], d\<lparr>channels := channels d @
             [\<lparr>chr_id = channels_seq d, chr_channel_id = chid, chr_channel_name = name,
               chr_invite_link = link, chr_created_at = t\<rparr>],
             channels_seq := Suc (channels_seq d)\<rparr>))"
| "run_stmt t SelectChannels d =
     Inr (map ChanRow (order_by_created_at (channels d)), d)"
| "run_stmt t (DeleteChannel chid) d =
     Inr ([], d\<lparr>channels := filter (\<lambda>c. chr_channel_id c \<noteq> chid) (channels d)\<rparr>)"

subsection \<open>The connection\<close>

text \<open>
  What the driver is asked to do, in the order it is asked; \<open>Sleep\<close> is
  \<open>time.sleep\<close> in milliseconds, the two \<open>Log\<close> events are \<open>logger.warning\<close> and
  \<open>logger.error\<close>.
\<close>

datatype db_event =
    Execute stmt
  | ExecuteMany "stmt list"
  | Commit
  | Rollback
  | Connect
  | Sleep nat
  | LogWarning
  | LogError

text \<open>
  \<open>self.conn\<close> with \<open>autocommit = False\<close>: \<open>stored\<close> is the committed content,
  \<open>pending\<close> what the open transaction sees. Every call into the driver may raise:
  \<open>faults\<close> is the schedule of the environment, one entry per call (\<open>None\<close>: the call
  goes through; an exhausted schedule means no more faults). \<open>clock\<close> is the time the
  open transaction started.
\<close>

record conn =
  stored :: database
  pending :: database
  faults :: "exn option list"
  clock :: nat
  journal :: "db_event list"

definition log_event :: "db_event \<Rightarrow> conn \<Rightarrow> conn" where
  "log_event e c = c\<lparr>journal := journal c @ [e]\<rparr>"

definition next_fault :: "conn \<Rightarrow> exn option \<times> conn" where
  "next_fault c =
     (case faults c of [] \<Rightarrow> (None, c) | f # fs \<Rightarrow> (f, c\<lparr>faults := fs\<rparr>))"

definition cursor_execute :: "stmt \<Rightarrow> conn \<Rightarrow> (exn + row list) \<times> conn" where
  "cursor_execute q c =
     (case next_fault (log_event (Execute q) c) of
        (Some e, c1) \<Rightarrow> (Inl e, c1)
      | (None, c1) \<Rightarrow>
          (case run_stmt (clock c1) q (pending c1) of
             Inl e \<Rightarrow> (Inl e, c1)
           | Inr (rows, d) \<Rightarrow> (Inr rows, c1\<lparr>pending := d\<rparr>)))"

fun run_all :: "nat \<Rightarrow> stmt list \<Rightarrow> database \<Rightarrow> exn + database" where
  "run_all t [] d = Inr d"
| "run_all t (q # qs) d =
     (case run_stmt t q d of Inl e \<Rightarrow> Inl e | Inr (rows, d1) \<Rightarrow> run_all t qs d1)"

definition cursor_executemany :: "stmt list \<Rightarrow> conn \<Rightarrow> (exn + unit) \<times> conn" where
  "cursor_executemany qs c =
     (case next_fault (log_event (ExecuteMany qs) c) of
        (Some e, c1) \<Rightarrow> (Inl e, c1)
      | (None, c1) \<Rightarrow>
          (case run_all (clock c1) qs (pending c1) of
             Inl e \<Rightarrow> (Inl e, c1)
           | Inr d \<Rightarrow> (Inr (), c1\<lparr>pending := d\<rparr>)))"

definition conn_commit :: "conn \<Rightarrow> (exn + unit) \<times> conn" where
  "conn_commit c =
     (case next_fault (log_event Commit c) of
        (Some e, c1) \<Rightarrow> (Inl e, c1)
      | (None, c1) \<Rightarrow> (Inr (), c1\<lparr>stored := pending c1, clock := Suc (clock c1)\<rparr>))"

definition conn_rollback :: "conn \<Rightarrow> (exn + unit) \<times> conn" where
  "conn_rollback c =
     (case next_fault (log_event Rollback c) of
        (Some e, c1) \<Rightarrow> (Inl e, c1)
      | (None, c1) \<Rightarrow> (Inr (), c1\<lparr>pending := stored c1, clock := Suc (clock c1)\<rparr>))"

text \<open>
  \<open>psycopg2.connect\<close>: a new connection sees the committed content and has no open
  transaction.
\<close>

definition psycopg2_connect :: "conn \<Rightarrow> (exn + unit) \<times> conn" where
  "psycopg2_connect c =
     (case next_fault (log_event Connect c) of
        (Some e, c1) \<Rightarrow> (Inl e, c1)
      | (None, c1) \<Rightarrow> (Inr (), c1\<lparr>pending := stored c1, clock := Suc (clock c1)\<rparr>))"

section \<open>DatabaseManager\<close>

datatype fetch = FetchNone | FetchOne | FetchAll

text \<open>
  \<open>cursor.fetchone()\<close> is the first row or \<open>None\<close>, \<open>cursor.fetchall()\<close> every row,
  and with no \<open>fetch\<close> the result is \<open>None\<close>. The result is kept as the list of rows
  handed back: none, at most one, or all of them.
\<close>

fun fetched :: "fetch \<Rightarrow> row list \<Rightarrow> row list" where
  "fetched FetchNone rows = []"
| "fetched FetchOne rows = take 1 rows"
| "fetched FetchAll rows = rows"

definition max_retries :: nat where
  "max_retries = 3"

text \<open>The body of the \<open>try\<close> in \<open>_execute_with_retry\<close>: execute, fetch, commit.\<close>

definition try_execute :: "stmt \<Rightarrow> fetch \<Rightarrow> conn \<Rightarrow> (exn + row list) \<times> conn" where
  "try_execute q f c =
     (case cursor_execute q c of
        (Inl e, c1) \<Rightarrow> (Inl e, c1)
      | (Inr rows, c1) \<Rightarrow>
          (case conn_commit c1 of
             (Inl e, c2) \<Rightarrow> (Inl e, c2)
           | (Inr u, c2) \<Rightarrow> (Inr (fetched f rows), c2)))"

text \<open>
  The non-final \<open>except psycopg2.OperationalError\<close> branch: \<open>logger.warning\<close>,
  \<open>time.sleep(1)\<close>, then \<open>self.conn = psycopg2.connect(...)\<close> inside
  \<open>try: ... except: pass\<close>, so the outcome of the reconnection is dropped.
\<close>

definition wait_and_reconnect :: "conn \<Rightarrow> conn" where
  "wait_and_reconnect c =
     snd (psycopg2_connect (log_event (Sleep 1000) (log_event LogWarning c)))"

text \<open>
  \<open>_execute_with_retry\<close>, entered at iteration \<open>attempt\<close> of
  \<open>for attempt in range(max_retries)\<close>. An \<open>OperationalError\<close> before the last
  iteration logs a warning, sleeps one second and tries to reconnect (a failure to
  reconnect is swallowed), then goes to the next iteration; in the last iteration it is
  raised again. Any other exception rolls back and is raised again; when the rollback
  itself raises, that exception leaves the handler instead. The last iteration returns
  or raises, so the loop never runs out of iterations.
\<close>

function retry_from :: "nat \<Rightarrow> stmt \<Rightarrow> fetch \<Rightarrow> conn \<Rightarrow> (exn + row list) \<times> conn" where
  "retry_from attempt q f c =
     (case try_execute q f c of
        (Inr rows, c1) \<Rightarrow> (Inr rows, c1)
      | (Inl e, c1) \<Rightarrow>
          if e = OperationalError then
            if attempt < max_retries - 1 then
              retry_from (Suc attempt) q f (wait_and_reconnect c1)
            else (Inl e, c1)
          else
            (case conn_rollback c1 of
               (Inl e', c2) \<Rightarrow> (Inl e', c2)
             | (Inr u, c2) \<Rightarrow> (Inl e, c2)))"
  by pat_completeness auto
termination
  by (relation "measure (\<lambda>(attempt, q, f, c). max_retries - 1 - attempt)") auto

definition execute_with_retry :: "stmt \<Rightarrow> fetch \<Rightarrow> conn \<Rightarrow> (exn + row list) \<times> conn" where
  "execute_with_retry q f c = retry_from 0 q f c"

subsection \<open>Reading rows\<close>

fun cat_rows :: "row list \<Rightarrow> category_row list" where
  "cat_rows [] = []"
| "cat_rows (CatRow r # rs) = r # cat_rows rs"
| "cat_rows (other # rs) = cat_rows rs"

fun file_rows :: "row list \<Rightarrow> file_row list" where
  "file_rows [] = []"
| "file_rows (FileRow r # rs) = r # file_rows rs"
| "file_rows (other # rs) = file_rows rs"

fun chan_rows :: "row list \<Rightarrow> channel_row list" where
  "chan_rows [] = []"
| "chan_rows (ChanRow r # rs) = r # chan_rows rs"
| "chan_rows (other # rs) = chan_rows rs"

text \<open>
  The dictionary built from a row of \<open>files\<close>; \<open>row[..] or ''\<close> turns a missing
  caption into the empty string.
\<close>

definition file_dict :: "file_row \<Rightarrow> file_info" where
  "file_dict r =
     \<lparr>file_id = fr_file_id r, file_name = fr_file_name r, file_size = fr_file_size r,
      file_type = fr_file_type r,
      caption = (case fr_caption r of None \<Rightarrow> [] | Some s \<Rightarrow> s)\<rparr>"

text \<open>The dictionary \<open>get_categories\<close> and \<open>get_category\<close> return for a category.\<close>

record category =
  name :: string
  cat_files :: "file_info list"
  created_by :: int
  created_at :: nat

record channel =
  channel_id :: string
  channel_name :: string
  invite_link :: string

subsection \<open>Categories\<close>

definition add_category :: "string \<Rightarrow> string \<Rightarrow> int \<Rightarrow> conn \<Rightarrow> (exn + bool) \<times> conn" where
  "add_category cid nm creator c =
     (case execute_with_retry (InsertCategory cid nm creator) FetchNone c of
        (Inr rows, c1) \<Rightarrow> (Inr True, c1)
      | (Inl e, c1) \<Rightarrow> (Inr False, log_event LogError c1))"

text \<open>
  The loop of \<open>get_categories\<close> that groups the fetched files:
  \<open>files_by_category[cat_id].append({...})\<close>, the key created on first use.
\<close>

fun group_files :: "file_row list \<Rightarrow> (string \<rightharpoonup> file_info list) \<Rightarrow> (string \<rightharpoonup> file_info list)" where
  "group_files [] m = m"
| "group_files (r # rs) m =
     group_files rs
       (m(fr_category_id r \<mapsto>
            (case m (fr_category_id r) of None \<Rightarrow> [] | Some fs \<Rightarrow> fs) @ [file_dict r]))"

text \<open>
  The last loop of \<open>get_categories\<close>: \<open>categories[cat_id] = {...}\<close> for each category
  row, in the order of the rows. A Python dictionary keeps its keys in insertion order
  and an assignment to a key it already has replaces the value in place.
\<close>

fun dict_set :: "'k \<Rightarrow> 'v \<Rightarrow> ('k \<times> 'v) list \<Rightarrow> ('k \<times> 'v) list" where
  "dict_set k v [] = [(k, v)]"
| "dict_set k v (p # ps) = (if fst p = k then (k, v) # ps else p # dict_set k v ps)"

fun build_categories ::
  "category_row list \<Rightarrow> (string \<rightharpoonup> file_info list) \<Rightarrow> (string \<times> category) list
     \<Rightarrow> (string \<times> category) list" where
  "build_categories [] fbc acc = acc"
| "build_categories (r # rs) fbc acc =
     build_categories rs fbc
       (dict_set (cr_id r)
          \<lparr>name = cr_name r,
           cat_files = (case fbc (cr_id r) of None \<Rightarrow> [] | Some fs \<Rightarrow> fs),
           created_by = cr_created_by r, created_at = cr_created_at r\<rparr> acc)"

definition get_categories :: "conn \<Rightarrow> (exn + (string \<times> category) list) \<times> conn" where
  "get_categories c =
     (case execute_with_retry SelectCategories FetchAll c of
        (Inl e, c1) \<Rightarrow> (Inr [], log_event LogError c1)
      | (Inr rows, c1) \<Rightarrow>
          (let categories_data = cat_rows rows in
           if categories_data = [] then (Inr [], c1)
           else
             (let category_ids = map cr_id categories_data in
              if category_ids \<noteq> [] then
                (case execute_with_retry (SelectFilesIn category_ids) FetchAll c1 of
                   (Inl e, c2) \<Rightarrow> (Inr [], log_event LogError c2)
                 | (Inr frows, c2) \<Rightarrow>
                     (Inr (build_categories categories_data
                             (group_files (file_rows frows) Map.empty) []), c2))
              else (Inr (build_categories categories_data Map.empty []), c1))))"

definition get_category :: "string \<Rightarrow> conn \<Rightarrow> (exn + category option) \<times> conn" where
  "get_category cid c =
     (case execute_with_retry (SelectCategory cid) FetchOne c of
        (Inl e, c1) \<Rightarrow> (Inr None, log_event LogError c1)
      | (Inr rows, c1) \<Rightarrow>
          (case cat_rows rows of
             [] \<Rightarrow> (Inr None, c1)
           | r # rest \<Rightarrow>
               (case execute_with_retry (SelectFilesOf cid) FetchAll c1 of
                  (Inl e, c2) \<Rightarrow> (Inr None, log_event LogError c2)
                | (Inr frows, c2) \<Rightarrow>
                    (Inr (Some \<lparr>name = cr_name r,
                                cat_files = map file_dict (file_rows frows),
                                created_by = cr_created_by r,
                                created_at = cr_created_at r\<rparr>), c2))))"

definition delete_category :: "string \<Rightarrow> conn \<Rightarrow> (exn + bool) \<times> conn" where
  "delete_category cid c =
     (case execute_with_retry (DeleteCategory cid) FetchNone c of
        (Inr rows, c1) \<Rightarrow> (Inr True, c1)
      | (Inl e, c1) \<Rightarrow> (Inr False, log_event LogError c1))"

subsection \<open>Files\<close>

definition add_file_to_category :: "string \<Rightarrow> file_info \<Rightarrow> conn \<Rightarrow> (exn + bool) \<times> conn" where
  "add_file_to_category cid fi c =
     (case execute_with_retry (InsertFile cid fi) FetchNone c of
        (Inr rows, c1) \<Rightarrow> (Inr True, c1)
      | (Inl e, c1) \<Rightarrow>
          if e = IntegrityError then (Inr False, log_event LogWarning c1)
          else (Inr False, log_event LogError c1))"

text \<open>
  The handler shared by \<open>add_files_to_category\<close> and \<open>delete_file\<close>:
  \<open>self.conn.rollback(); logger.error(...); return False\<close>. The rollback is a call into
  the driver inside the handler: when it raises, its exception leaves the operation.
\<close>

definition rollback_and_fail :: "conn \<Rightarrow> (exn + bool) \<times> conn" where
  "rollback_and_fail c =
     (case conn_rollback c of
        (Inl e, c1) \<Rightarrow> (Inl e, c1)
      | (Inr u, c1) \<Rightarrow> (Inr False, log_event LogError c1))"

definition add_files_to_category :: "string \<Rightarrow> file_info list \<Rightarrow> conn \<Rightarrow> (exn + bool) \<times> conn" where
  "add_files_to_category cid fs c =
     (case cursor_executemany (map (InsertFileIgnore cid) fs) c of
        (Inl e, c1) \<Rightarrow> rollback_and_fail c1
      | (Inr u, c1) \<Rightarrow>
          (case conn_commit c1 of
             (Inl e, c2) \<Rightarrow> rollback_and_fail c2
           | (Inr u, c2) \<Rightarrow> (Inr True, c2)))"

definition delete_file :: "string \<Rightarrow> int \<Rightarrow> conn \<Rightarrow> (exn + bool) \<times> conn" where
  "delete_file cid file_index c =
     (case cursor_execute (SelectFileAt cid file_index) c of
        (Inl e, c1) \<Rightarrow> rollback_and_fail c1
      | (Inr rows, c1) \<Rightarrow>
          (case file_rows rows of
             [] \<Rightarrow> (Inr False, c1)
           | r # rest \<Rightarrow>
               (case cursor_execute (DeleteFileById (fr_id r)) c1 of
                  (Inl e, c2) \<Rightarrow> rollback_and_fail c2
                | (Inr none, c2) \<Rightarrow>
                    (case conn_commit c2 of
                       (Inl e, c3) \<Rightarrow> rollback_and_fail c3
                     | (Inr u, c3) \<Rightarrow> (Inr True, c3)))))"

subsection \<open>Mandatory channels\<close>

definition add_channel :: "string \<Rightarrow> string \<Rightarrow> string \<Rightarrow> conn \<Rightarrow> (exn + bool) \<times> conn" where
  "add_channel chid nm link c =
     (case execute_with_retry (InsertChannel chid nm link) FetchNone c of
        (Inr rows, c1) \<Rightarrow> (Inr True, c1)
      | (Inl e, c1) \<Rightarrow>
          if e = IntegrityError then (Inr False, log_event LogWarning c1)
          else (Inr False, log_event LogError c1))"

definition channel_dict :: "channel_row \<Rightarrow> channel" where
  "channel_dict r =
     \<lparr>channel_id = chr_channel_id r, channel_name = chr_channel_name r,
      invite_link = chr_invite_link r\<rparr>"

definition get_channels :: "conn \<Rightarrow> (exn + channel list) \<times> conn" where
  "get_channels c =
     (case execute_with_retry SelectChannels FetchAll c of
        (Inl e, c1) \<Rightarrow> (Inr [], log_event LogError c1)
      | (Inr rows, c1) \<Rightarrow> (Inr (map channel_dict (chan_rows rows)), c1))"

definition delete_channel :: "string \<Rightarrow> conn \<Rightarrow> (exn + bool) \<times> conn" where
  "delete_channel chid c =
     (case execute_with_retry (DeleteChannel chid) FetchNone c of
        (Inr rows, c1) \<Rightarrow> (Inr True, c1)
      | (Inl e, c1) \<Rightarrow> (Inr False, log_event LogError c1))"

section \<open>The bot\<close>

subsection \<open>Objects of the messaging transport\<close>

text \<open>
  An attachment of an incoming message (\<open>Document\<close>, \<open>PhotoSize\<close>, \<open>Video\<close>,
  \<open>Audio\<close>, \<open>Voice\<close>): the platform's token, the optional name, the size.
\<close>

record attachment =
  att_file_id :: string
  att_file_name :: "string option"
  att_file_size :: int

record message =
  document :: "attachment option"
  photo :: "attachment list"
  video :: "attachment option"
  audio :: "attachment option"
  voice :: "attachment option"
  msg_caption :: "string option"

text \<open>
  What a handler reads from an \<open>Update\<close>: \<open>update.effective_user.id\<close>,
  \<open>update.effective_chat.id\<close>, \<open>update.message\<close>, and \<open>context.args\<close> of the
  command. What it reads from a \<open>CallbackQuery\<close>: \<open>query.from_user.id\<close>,
  \<open>query.message.chat_id\<close> and \<open>query.data\<close>.
\<close>

record update =
  effective_user :: int
  effective_chat :: int
  upd_message :: message
  args :: "string list"

record callback_query =
  from_user :: int
  message_chat_id :: int
  data :: string

text \<open>
  \<open>handle_category_access\<close> and \<open>send_category_files\<close> are called with either kind
  of object in the place of \<open>update\<close>. Following the classes of the transport library,
  a \<open>CallbackQuery\<close> has a \<open>message\<close> but neither \<open>effective_user\<close> nor
  \<open>effective_chat\<close> (the handlers written for it read \<open>from_user\<close> and
  \<open>message.chat_id\<close>): reading one of them raises \<open>AttributeError\<close>.
\<close>

datatype tg_object = Update update | CallbackQuery callback_query

fun effective_user_id :: "tg_object \<Rightarrow> exn + int" where
  "effective_user_id (Update u) = Inr (effective_user u)"
| "effective_user_id (CallbackQuery q) = Inl AttributeError"

fun effective_chat_id :: "tg_object \<Rightarrow> exn + int" where
  "effective_chat_id (Update u) = Inr (effective_chat u)"
| "effective_chat_id (CallbackQuery q) = Inl AttributeError"

fun reply_chat :: "tg_object \<Rightarrow> int" where
  "reply_chat (Update u) = effective_chat u"
| "reply_chat (CallbackQuery q) = message_chat_id q"

subsection \<open>What the bot sends\<close>

text \<open>The fixed texts of the bot, with the values they are formatted with.\<close>

datatype reply =
    AdminGreeting
  | UserGreeting
  | CategoryNotFound
  | CategoryHasNoFiles
  | SendingCategory string
  | SendingFiles
  | JoinChannelsFirst
  | AdminMenu string nat
  | NotAllowed
  | UploadUsage
  | UploadModeOn string
  | AddModeOn
  | FileReceived string nat
  | UnsupportedFileType
  | NoUploadInProgress
  | NothingUploaded
  | FilesAdded nat string
  | SaveFailed
  | ChooseFileToDelete
  | FileDeleted
  | FileDeleteFailed
  | ConfirmDeletion
  | CategoryDeleted string
  | CategoryDeleteFailed

datatype label =
    ChannelLabel string
  | JoinedLabel
  | ViewFilesLabel
  | AddFileLabel
  | DeleteFileLabel
  | DeleteCategoryLabel
  | FileLabel string
  | ConfirmLabel
  | CancelLabel

text \<open>\<open>InlineKeyboardButton(text, url=...)\<close> and \<open>InlineKeyboardButton(text, callback_data=...)\<close>.\<close>

datatype button = UrlButton label string | CallbackButton label string

text \<open>
  The calls into the transport and the logger, in the order they are made. Chat ids
  first; a media send carries the chat, the stored token and the caption;
  \<open>AsyncSleep\<close> is \<open>asyncio.sleep\<close> in milliseconds.
\<close>

datatype action =
    ReplyText int reply "button list list"
  | EditMessageText reply "button list list"
  | AnswerCallback
  | GetChatMember string int
  | SendDocument int string string
  | SendPhoto int string string
  | SendVideo int string string
  | SendAudio int string string
  | SendVoice int string string
  | AsyncSleep nat
  | LogErrorMsg

text \<open>
  The surroundings of one handler run: the configured \<open>ADMIN_IDS\<close> and
  \<open>BOT_USERNAME\<close>, what \<open>get_chat_member\<close> answers for a channel and a user at that
  moment (the member's status, or an exception), and which media sends raise.
\<close>

record env =
  admin_ids :: "int list"
  bot_username :: string
  chat_member :: "string \<Rightarrow> int \<Rightarrow> exn + string"
  send_error :: "action \<Rightarrow> exn option"

record pending_upload =
  pu_category_id :: string
  pu_files :: "file_info list"

text \<open>
  \<open>bot_manager\<close>: the database manager and \<open>pending_uploads\<close>, a dictionary keyed by
  user id; \<open>outbox\<close> collects the actions.
\<close>

record bot =
  db :: conn
  pending_uploads :: "int \<rightharpoonup> pending_upload"
  outbox :: "action list"

datatype ret = ReturnNone | UPLOADING | ConversationEnd

definition emit :: "action \<Rightarrow> bot \<Rightarrow> bot" where
  "emit a b = b\<lparr>outbox := outbox b @ [a]\<rparr>"

definition reply_text :: "tg_object \<Rightarrow> reply \<Rightarrow> button list list \<Rightarrow> bot \<Rightarrow> bot" where
  "reply_text u t kb b = emit (ReplyText (reply_chat u) t kb) b"

definition edit_message_text :: "reply \<Rightarrow> button list list \<Rightarrow> bot \<Rightarrow> bot" where
  "edit_message_text t kb b = emit (EditMessageText t kb) b"

text \<open>A call \<open>bot_manager.db.op(...)\<close>.\<close>

definition with_db :: "(conn \<Rightarrow> (exn + 'a) \<times> conn) \<Rightarrow> bot \<Rightarrow> (exn + 'a) \<times> bot" where
  "with_db operation b = (case operation (db b) of (r, c) \<Rightarrow> (r, b\<lparr>db := c\<rparr>))"

subsection \<open>FileManagerBot\<close>

definition is_admin :: "env \<Rightarrow> int \<Rightarrow> bool" where
  "is_admin e user_id = (user_id \<in> set (admin_ids e))"




subsection \<open>Access to a category\<close>

definition admin_keyboard :: "string \<Rightarrow> button list list" where
  "admin_keyboard category_id =
     [[CallbackButton ViewFilesLabel (''view_'' @ category_id)],
      [CallbackButton AddFileLabel (''add_'' @ category_id)],
      [CallbackButton DeleteFileLabel (''delete_file_'' @ category_id)],
      [CallbackButton DeleteCategoryLabel (''delete_cat_'' @ category_id)]]"

definition handle_admin_category_access :: "tg_object \<Rightarrow> string \<Rightarrow> bot \<Rightarrow> (exn + ret) \<times> bot" where
  "handle_admin_category_access u category_id b =
     (case with_db (get_category category_id) b of
        (Inl ex, b1) \<Rightarrow> (Inl ex, b1)
      | (Inr None, b1) \<Rightarrow> (Inr ReturnNone, reply_text u CategoryNotFound [] b1)
      | (Inr (Some cat), b1) \<Rightarrow>
          (Inr ReturnNone,
           reply_text u (AdminMenu (name cat) (length (cat_files cat)))
             (admin_keyboard category_id) b1))"

text \<open>
  The \<open>if\<close>/\<open>elif\<close> chain of \<open>send_category_files\<close> on \<open>file_info['file_type']\<close>:
  the send operation for each of the five kinds, none for any other string.
\<close>

definition send_operation :: "string \<Rightarrow> (int \<Rightarrow> string \<Rightarrow> string \<Rightarrow> action) option" where
  "send_operation ty =
     (if ty = ''document'' then Some SendDocument
      else if ty = ''photo'' then Some SendPhoto
      else if ty = ''video'' then Some SendVideo
      else if ty = ''audio'' then Some SendAudio
      else if ty = ''voice'' then Some SendVoice
      else None)"

text \<open>
  The chain of \<open>view_category_files\<close>: it has the branches for \<open>document\<close> and
  \<open>photo\<close> only, followed by a comment that the other kinds go the same way.
\<close>

definition view_operation :: "string \<Rightarrow> (int \<Rightarrow> string \<Rightarrow> string \<Rightarrow> action) option" where
  "view_operation ty =
     (if ty = ''document'' then Some SendDocument
      else if ty = ''photo'' then Some SendPhoto
      else None)"

text \<open>
  One iteration of a delivery loop, the body of its \<open>try\<close>: the send selected for the
  file, with the chat id read inside the \<open>try\<close>, then \<open>asyncio.sleep(0.5)\<close>. An
  exception (from reading the chat id or from the send) is logged in the \<open>except\<close>
  branch, which skips the sleep; the loop goes on either way.
\<close>

definition send_one ::
  "env \<Rightarrow> exn + int \<Rightarrow> (int \<Rightarrow> string \<Rightarrow> string \<Rightarrow> action) option \<Rightarrow> file_info \<Rightarrow> bot \<Rightarrow> bot" where
  "send_one e chat operation fi b =
     (case operation of
        None \<Rightarrow> emit (AsyncSleep 500) b
      | Some send \<Rightarrow>
          (case chat of
             Inl ex \<Rightarrow> emit LogErrorMsg b
           | Inr chat_id \<Rightarrow>
               (let a = send chat_id (file_id fi) (caption fi); b1 = emit a b
                in case send_error e a of
                     Some ex \<Rightarrow> emit LogErrorMsg b1
                   | None \<Rightarrow> emit (AsyncSleep 500) b1)))"

fun send_files :: "env \<Rightarrow> tg_object \<Rightarrow> file_info list \<Rightarrow> bot \<Rightarrow> bot" where
  "send_files e u [] b = b"
| "send_files e u (fi # fs) b =
     send_files e u fs (send_one e (effective_chat_id u) (send_operation (file_type fi)) fi b)"

definition send_category_files :: "env \<Rightarrow> tg_object \<Rightarrow> string \<Rightarrow> bot \<Rightarrow> (exn + ret) \<times> bot" where
  "send_category_files e u category_id b =
     (case with_db (get_category category_id) b of
        (Inl ex, b1) \<Rightarrow> (Inl ex, b1)
      | (Inr None, b1) \<Rightarrow> (Inr ReturnNone, reply_text u CategoryNotFound [] b1)
      | (Inr (Some cat), b1) \<Rightarrow>
          if cat_files cat = [] then (Inr ReturnNone, reply_text u CategoryHasNoFiles [] b1)
          else (Inr ReturnNone,
                send_files e u (cat_files cat)
                  (reply_text u (SendingCategory (name cat)) [] b1)))"

text \<open>
  The membership loop of \<open>handle_category_access\<close>: one \<open>get_chat_member\<close> call per
  channel; the channel joins \<open>non_joined_channels\<close> when the status is none of
  \<open>member\<close>, \<open>administrator\<close>, \<open>creator\<close>, and also when the call raises (the
  exception is logged).
\<close>

fun check_channels :: "env \<Rightarrow> int \<Rightarrow> channel list \<Rightarrow> channel list \<Rightarrow> bot \<Rightarrow> channel list \<times> bot" where
  "check_channels e user_id [] non_joined b = (non_joined, b)"
| "check_channels e user_id (ch # chs) non_joined b =
     (let b1 = emit (GetChatMember (channel_id ch) user_id) b
      in case chat_member e (channel_id ch) user_id of
           Inr status \<Rightarrow>
             if status \<notin> set [''member'', ''administrator'', ''creator'']
             then check_channels e user_id chs (non_joined @ [ch]) b1
             else check_channels e user_id chs non_joined b1
         | Inl ex \<Rightarrow> check_channels e user_id chs (non_joined @ [ch]) (emit LogErrorMsg b1))"

definition join_keyboard :: "channel list \<Rightarrow> string \<Rightarrow> button list list" where
  "join_keyboard non_joined category_id =
     map (\<lambda>ch. [UrlButton (ChannelLabel (channel_name ch)) (invite_link ch)]) non_joined
     @ [[CallbackButton JoinedLabel (''check_membership_'' @ category_id)]]"

definition handle_category_access :: "env \<Rightarrow> tg_object \<Rightarrow> string \<Rightarrow> bot \<Rightarrow> (exn + ret) \<times> bot" where
  "handle_category_access e u category_id b =
     (case effective_user_id u of
        Inl ex \<Rightarrow> (Inl ex, b)
      | Inr user_id \<Rightarrow>
          (case effective_chat_id u of
             Inl ex \<Rightarrow> (Inl ex, b)
           | Inr chat_id \<Rightarrow>
               if is_admin e user_id then handle_admin_category_access u category_id b
               else
                 (case with_db get_channels b of
                    (Inl ex, b1) \<Rightarrow> (Inl ex, b1)
                  | (Inr chans, b1) \<Rightarrow>
                      if chans = [] then send_category_files e u category_id b1
                      else
                        (case check_channels e user_id chans [] b1 of
                           (non_joined, b2) \<Rightarrow>
                             if non_joined = [] then send_category_files e u category_id b2
                             else (Inr ReturnNone,
                                   reply_text u JoinChannelsFirst
                                     (join_keyboard non_joined category_id) b2)))))"

definition startswith :: "string \<Rightarrow> string \<Rightarrow> bool" where
  "startswith s p = (take (length p) s = p)"

definition start :: "env \<Rightarrow> update \<Rightarrow> bot \<Rightarrow> (exn + ret) \<times> bot" where
  "start e u b =
     (if args u \<noteq> [] \<and> startswith (hd (args u)) ''cat_''
      then handle_category_access e (Update u) (drop 4 (hd (args u))) b
      else if is_admin e (effective_user u)
      then (Inr ReturnNone, reply_text (Update u) AdminGreeting [] b)
      else (Inr ReturnNone, reply_text (Update u) UserGreeting [] b))"

subsection \<open>Upload\<close>




subsection \<open>Inline buttons\<close>

fun view_files :: "env \<Rightarrow> callback_query \<Rightarrow> file_info list \<Rightarrow> bot \<Rightarrow> bot" where
  "view_files e query [] b = b"
| "view_files e query (fi # fs) b =
     view_files e query fs
       (send_one e (Inr (message_chat_id query)) (view_operation (file_type fi)) fi b)"

definition view_category_files :: "env \<Rightarrow> callback_query \<Rightarrow> string \<Rightarrow> bot \<Rightarrow> (exn + ret) \<times> bot" where
  "view_category_files e query category_id b =
     (case with_db (get_category category_id) b of
        (Inl ex, b1) \<Rightarrow> (Inl ex, b1)
      | (Inr None, b1) \<Rightarrow> (Inr ReturnNone, edit_message_text CategoryNotFound [] b1)
      | (Inr (Some cat), b1) \<Rightarrow>
          if cat_files cat = [] then (Inr ReturnNone, edit_message_text CategoryHasNoFiles [] b1)
          else (Inr ReturnNone,
                view_files e query (cat_files cat) (edit_message_text SendingFiles [] b1)))"

definition start_adding_files :: "callback_query \<Rightarrow> string \<Rightarrow> int \<Rightarrow> bot \<Rightarrow> (exn + ret) \<times> bot" where
  "start_adding_files query category_id user_id b =
     (Inr ReturnNone,
      edit_message_text AddModeOn []
        (b\<lparr>pending_uploads := (pending_uploads b)(user_id \<mapsto>
              \<lparr>pu_category_id = category_id, pu_files = []\<rparr>)\<rparr>))"

text \<open>\<open>str(i)\<close> for an index of \<open>enumerate\<close>: the decimal digits.\<close>

function str_nat :: "nat \<Rightarrow> string" where
  "str_nat n =
     (if n < 10 then [char_of (48 + n)]
      else str_nat (n div 10) @ [char_of (48 + n mod 10)])"
  by pat_completeness auto
termination
  by (relation "measure id") auto

definition show_files_for_deletion :: "callback_query \<Rightarrow> string \<Rightarrow> bot \<Rightarrow> (exn + ret) \<times> bot" where
  "show_files_for_deletion query category_id b =
     (case with_db (get_category category_id) b of
        (Inl ex, b1) \<Rightarrow> (Inl ex, b1)
      | (Inr None, b1) \<Rightarrow> (Inr ReturnNone, edit_message_text CategoryHasNoFiles [] b1)
      | (Inr (Some cat), b1) \<Rightarrow>
          if cat_files cat = [] then (Inr ReturnNone, edit_message_text CategoryHasNoFiles [] b1)
          else (Inr ReturnNone,
                edit_message_text ChooseFileToDelete
                  (map (\<lambda>(i, fi). [CallbackButton (FileLabel (file_name fi))
                                     (''del_file_'' @ category_id @ ''_'' @ str_nat i)])
                     (enumerate 0 (cat_files cat))) b1))"

definition delete_file_from_category :: "string \<Rightarrow> int \<Rightarrow> bot \<Rightarrow> (exn + ret) \<times> bot" where
  "delete_file_from_category category_id file_index b =
     (case with_db (delete_file category_id file_index) b of
        (Inl ex, b1) \<Rightarrow> (Inl ex, b1)
      | (Inr success, b1) \<Rightarrow>
          if success then (Inr ReturnNone, edit_message_text FileDeleted [] b1)
          else (Inr ReturnNone, edit_message_text FileDeleteFailed [] b1))"

definition confirm_category_deletion :: "string \<Rightarrow> bot \<Rightarrow> (exn + ret) \<times> bot" where
  "confirm_category_deletion category_id b =
     (Inr ReturnNone,
      edit_message_text ConfirmDeletion
        [[CallbackButton ConfirmLabel (''confirm_del_cat_'' @ category_id)],
         [CallbackButton CancelLabel ''cancel'']] b)"

text \<open>The handler \<open>delete_category(query, category_id)\<close> behind the confirmation button.\<close>

definition delete_category_button :: "string \<Rightarrow> bot \<Rightarrow> (exn + ret) \<times> bot" where
  "delete_category_button category_id b =
     (case with_db (get_category category_id) b of
        (Inl ex, b1) \<Rightarrow> (Inl ex, b1)
      | (Inr None, b1) \<Rightarrow> (Inr ReturnNone, edit_message_text CategoryNotFound [] b1)
      | (Inr (Some cat), b1) \<Rightarrow>
          (case with_db (delete_category category_id) b1 of
             (Inl ex, b2) \<Rightarrow> (Inl ex, b2)
           | (Inr success, b2) \<Rightarrow>
               if success
               then (Inr ReturnNone, edit_message_text (CategoryDeleted (name cat)) [] b2)
               else (Inr ReturnNone, edit_message_text CategoryDeleteFailed [] b2)))"

text \<open>
  \<open>s.split('_', 1)\<close>: the parts before and after the first underscore, or the string
  alone when it has none.
\<close>

definition split_once :: "string \<Rightarrow> string list" where
  "split_once s =
     (if CHR ''_'' \<in> set s
      then [takeWhile (\<lambda>ch. ch \<noteq> CHR ''_'') s, tl (dropWhile (\<lambda>ch. ch \<noteq> CHR ''_'') s)]
      else [s])"

fun digits_value :: "string \<Rightarrow> nat \<Rightarrow> nat option" where
  "digits_value [] acc = Some acc"
| "digits_value (ch # cs) acc =
     (if 48 \<le> (of_char ch :: nat) \<and> (of_char ch :: nat) \<le> 57
      then digits_value cs (10 * acc + (of_char ch - 48))
      else None)"

text \<open>
  \<open>int(s)\<close> on the decimal numerals the bot writes into its callback data: an optional
  sign and digits. Anything else is a \<open>ValueError\<close> (Python also accepts blanks around
  the numeral and underscores between digits, which no button of the bot carries).
\<close>

definition py_int :: "string \<Rightarrow> exn + int" where
  "py_int s =
     (case s of
        [] \<Rightarrow> Inl ValueError
      | ch # cs \<Rightarrow>
          if ch = CHR ''-'' \<or> ch = CHR ''+'' then
            (if cs = [] then Inl ValueError
             else case digits_value cs 0 of
                    None \<Rightarrow> Inl ValueError
                  | Some n \<Rightarrow> Inr (if ch = CHR ''-'' then - int n else int n))
          else
            (case digits_value s 0 of None \<Rightarrow> Inl ValueError | Some n \<Rightarrow> Inr (int n)))"

definition button_handler :: "env \<Rightarrow> callback_query \<Rightarrow> bot \<Rightarrow> (exn + ret) \<times> bot" where
  "button_handler e query b0 =
     (let b = emit AnswerCallback b0; user_id = from_user query; d = data query
      in if startswith d ''check_membership_''
         then handle_category_access e (CallbackQuery query) (drop 17 d) b
         else if is_admin e user_id then
           (if startswith d ''view_'' then view_category_files e query (drop 5 d) b
            else if startswith d ''add_'' then start_adding_files query (drop 4 d) user_id b
            else if startswith d ''delete_file_'' then show_files_for_deletion query (drop 12 d) b
            else if startswith d ''delete_cat_'' then confirm_category_deletion (drop 11 d) b
            else if startswith d ''confirm_del_cat_'' then delete_category_button (drop 16 d) b
            else if startswith d ''del_file_'' then
              (case split_once (drop 9 d) of
                 p0 # p1 # rest \<Rightarrow>
                   (case py_int p1 of
                      Inl ex \<Rightarrow> (Inl ex, b)
                    | Inr file_index \<Rightarrow> delete_file_from_category p0 file_index b)
               | short \<Rightarrow> (Inl IndexError, b))
            else (Inr ReturnNone, b))
         else (Inr ReturnNone, edit_message_text NotAllowed [] b))"

section \<open>Reference traces and example data\<close>

text \<open>
  The calls one run of \<open>_execute_with_retry\<close> makes when it goes through \<open>k\<close>
  retries after the first attempt, commits and rollbacks left out: each retry is a
  warning, a sleep of one second, a reconnection and the statement again.
\<close>

fun retry_pattern :: "nat \<Rightarrow> stmt \<Rightarrow> db_event list" where
  "retry_pattern 0 q = [Execute q]"
| "retry_pattern (Suc k) q = [Execute q, LogWarning, Sleep 1000, Connect] @ retry_pattern k q"

definition driver_call :: "db_event \<Rightarrow> bool" where
  "driver_call e = (e \<noteq> Commit \<and> e \<noteq> Rollback)"

definition empty_db :: database where
  "empty_db = \<lparr>categories = [], files = [], channels = [], files_seq = 0, channels_seq = 0\<rparr>"

text \<open>A connection just opened on the content \<open>d\<close>, with no fault scheduled.\<close>

definition fresh_conn :: "database \<Rightarrow> conn" where
  "fresh_conn d = \<lparr>stored = d, pending = d, faults = [], clock = 0, journal = []\<rparr>"

definition db1 :: database where
  "db1 = empty_db\<lparr>categories :=
           [\<lparr>cr_id = ''a1'', cr_name = ''A'', cr_created_by = 7, cr_created_at = 0\<rparr>]\<rparr>"

text \<open>
  The state of a connection after the statements \<open>qs\<close> were each executed and
  committed without a fault, leaving the content \<open>d\<close>.
\<close>

definition committed :: "stmt list \<Rightarrow> database \<Rightarrow> conn \<Rightarrow> conn" where
  "committed qs d c =
     c\<lparr>stored := d, pending := d, clock := clock c + length qs,
       journal := journal c @ concat (map (\<lambda>q. [Execute q, Commit]) qs)\<rparr>"

text \<open>
  What the store holds for a category id: the category with its files in upload order,
  or nothing.
\<close>

definition lookup_category :: "string \<Rightarrow> database \<Rightarrow> category option" where
  "lookup_category cid d =
     (case filter (\<lambda>r. cr_id r = cid) (categories d) of
        [] \<Rightarrow> None
      | r # rest \<Rightarrow>
          Some \<lparr>name = cr_name r, cat_files = map file_dict (files_of cid d),
                created_by = cr_created_by r, created_at = cr_created_at r\<rparr>)"


definition is_membership_query :: "action \<Rightarrow> bool" where
  "is_membership_query a = (case a of GetChatMember ch user_id \<Rightarrow> True | other \<Rightarrow> False)"

text \<open>
  Example data: two mandatory channels, an administrator (user 7), and a transport on
  which asking about the first channel raises and every user is a member of the second.
\<close>

definition ch1 :: channel_row where
  "ch1 = \<lparr>chr_id = 0, chr_channel_id = ''-1001'', chr_channel_name = ''News'',
          chr_invite_link = ''https://t.me/news'', chr_created_at = 1\<rparr>"

definition ch2 :: channel_row where
  "ch2 = \<lparr>chr_id = 1, chr_channel_id = ''-1002'', chr_channel_name = ''Chat'',
          chr_invite_link = ''https://t.me/chat'', chr_created_at = 2\<rparr>"

definition db2 :: database where
  "db2 = db1\<lparr>channels := [ch1, ch2], channels_seq := 2\<rparr>"

definition env1 :: env where
  "env1 = \<lparr>admin_ids = [7], bot_username = ''fmbot'',
           chat_member = (\<lambda>ch user_id. if ch = ''-1001'' then Inl TelegramError
                                          else Inr ''member''),
           send_error = (\<lambda>a. None)\<rparr>"

definition no_media :: message where
  "no_media = \<lparr>document = None, photo = [], video = None, audio = None, voice = None,
               msg_caption = None\<rparr>"

text \<open>A command from a user in the private chat with the bot, with its arguments.\<close>

definition command_from :: "int \<Rightarrow> string list \<Rightarrow> update" where
  "command_from user_id arguments =
     \<lparr>effective_user = user_id, effective_chat = user_id, upd_message = no_media,
      args = arguments\<rparr>"

definition button_from :: "int \<Rightarrow> string \<Rightarrow> callback_query" where
  "button_from user_id d = \<lparr>from_user = user_id, message_chat_id = user_id, data = d\<rparr>"

text \<open>The bot just started on the content \<open>d\<close>.\<close>

definition bot0 :: "database \<Rightarrow> bot" where
  "bot0 d = \<lparr>db = fresh_conn d, pending_uploads = Map.empty, outbox = []\<rparr>"

text \<open>Example data: the category \<open>a1\<close> holding one stored video.\<close>

definition video1 :: file_row where
  "video1 = \<lparr>fr_id = 0, fr_category_id = ''a1'', fr_file_id = ''tok-video'',
             fr_file_name = ''video.mp4'', fr_file_size = 1024, fr_file_type = ''video'',
             fr_caption = Some ''clip'', fr_upload_date = 3\<rparr>"

definition db3 :: database where
  "db3 = db1\<lparr>files := [video1], files_seq := 1\<rparr>"

text \<open>
  The batch rule in the words of the specification: of the rows of a batch, those whose
  \<open>file_id\<close> is already present, in the store or earlier in the batch, are skipped
  and the others are kept, in order.
\<close>

fun kept_rows :: "string list \<Rightarrow> file_info list \<Rightarrow> file_info list" where
  "kept_rows seen [] = []"
| "kept_rows seen (f # fs) =
     (if file_id f \<in> set seen then kept_rows seen fs
      else f # kept_rows (seen @ [file_id f]) fs)"

definition photo2 :: file_info where
  "photo2 = \<lparr>file_id = ''tok-photo'', file_name = ''photo.jpg'', file_size = 2048,
              file_type = ''photo'', caption = []\<rparr>"

text \<open>
  The listing of the store in the words of the specification: every category, newest
  first, each with the files of its own upload-time ordering.
\<close>

definition category_entry :: "database \<Rightarrow> category_row \<Rightarrow> string \<times> category" where
  "category_entry d r =
     (cr_id r, \<lparr>name = cr_name r, cat_files = map file_dict (files_of (cr_id r) d),
                created_by = cr_created_by r, created_at = cr_created_at r\<rparr>)"

definition list_categories :: "database \<Rightarrow> (string \<times> category) list" where
  "list_categories d = map (category_entry d) (order_by_created_at_desc (categories d))"

text \<open>Example data: a second, newer category and files uploaded out of id order.\<close>

definition doc3 :: file_row where
  "doc3 = \<lparr>fr_id = 1, fr_category_id = ''b2'', fr_file_id = ''tok-doc'',
           fr_file_name = ''notes.pdf'', fr_file_size = 10, fr_file_type = ''document'',
           fr_caption = None, fr_upload_date = 1\<rparr>"

definition audio4 :: file_row where
  "audio4 = \<lparr>fr_id = 2, fr_category_id = ''a1'', fr_file_id = ''tok-audio'',
             fr_file_name = ''audio'', fr_file_size = 20, fr_file_type = ''audio'',
             fr_caption = Some [], fr_upload_date = 2\<rparr>"

definition db4 :: database where
  "db4 = db3\<lparr>categories := categories db3 @
                 [\<lparr>cr_id = ''b2'', cr_name = ''B'', cr_created_by = 7, cr_created_at = 5\<rparr>],
             files := [video1, doc3, audio4], files_seq := 3\<rparr>"



text \<open>
  The media sends among the actions, and the send the specification expects for a
  stored file: the operation of its kind with the stored token and caption.
\<close>

definition is_media_send :: "action \<Rightarrow> bool" where
  "is_media_send a =
     (case a of
        SendDocument chat token cap \<Rightarrow> True
      | SendPhoto chat token cap \<Rightarrow> True
      | SendVideo chat token cap \<Rightarrow> True
      | SendAudio chat token cap \<Rightarrow> True
      | SendVoice chat token cap \<Rightarrow> True
      | other \<Rightarrow> False)"

definition expected_send :: "int \<Rightarrow> file_info \<Rightarrow> action list" where
  "expected_send chat fi =
     (case send_operation (file_type fi) of
        None \<Rightarrow> []
      | Some send \<Rightarrow> [send chat (file_id fi) (caption fi)])"

text \<open>
  The keys of the schema: category ids, row ids and file tokens are unique, the row ids
  lie below the sequence, and every file belongs to a stored category.
\<close>

definition keys_ok :: "database \<Rightarrow> bool" where
  "keys_ok d =
     (distinct (map cr_id (categories d))
      \<and> distinct (map fr_id (files d))
      \<and> distinct (map fr_file_id (files d))
      \<and> list_all (\<lambda>f. fr_id f < files_seq d) (files d)
      \<and> list_all (\<lambda>f. fr_category_id f \<in> cr_id ` set (categories d)) (files d))"

section \<open>Properties of the connection and the retry loop\<close>

declare retry_from.simps [simp del]

lemma driver_call_simps [simp]:
  "driver_call (Execute q)" "driver_call LogWarning" "driver_call (Sleep n)"
  "driver_call Connect" "driver_call (ExecuteMany qs)" "driver_call LogError"
  "\<not> driver_call Commit" "\<not> driver_call Rollback"
  by (simp_all add: driver_call_def)

lemma log_event_fields [simp]:
  "journal (log_event e c) = journal c @ [e]"
  "faults (log_event e c) = faults c"
  "stored (log_event e c) = stored c"
  "pending (log_event e c) = pending c"
  "clock (log_event e c) = clock c"
  by (simp_all add: log_event_def)

lemma next_fault_journal [simp]: "journal (snd (next_fault c)) = journal c"
  by (simp add: next_fault_def split: list.splits)

lemma wait_and_reconnect_journal [simp]:
  "journal (wait_and_reconnect c) = journal c @ [LogWarning, Sleep 1000, Connect]"
  by (simp add: wait_and_reconnect_def psycopg2_connect_def next_fault_def
      split: list.splits option.splits)

lemma wait_and_reconnect_faults [simp]: "faults (wait_and_reconnect c) = tl (faults c)"
  by (simp add: wait_and_reconnect_def psycopg2_connect_def next_fault_def
      split: list.splits option.splits)

lemma conn_rollback_journal:
  "conn_rollback c = (r, c2) \<Longrightarrow> journal c2 = journal c @ [Rollback]"
  by (auto simp add: conn_rollback_def next_fault_def split: list.splits option.splits)

lemma try_execute_journal:
  "\<exists>es. journal (snd (try_execute q f c)) = journal c @ es \<and> filter driver_call es = [Execute q]"
  by (auto simp add: try_execute_def cursor_execute_def conn_commit_def next_fault_def
      split: list.splits option.splits sum.splits prod.splits)

lemma try_execute_fault:
  "faults c = Some e # rest \<Longrightarrow>
   try_execute q f c = (Inl e, (log_event (Execute q) c)\<lparr>faults := rest\<rparr>)"
  by (simp add: try_execute_def cursor_execute_def next_fault_def)

text \<open>
  Whatever the driver does, one run of the loop started at iteration \<open>attempt\<close> makes
  the calls of \<open>retry_pattern k\<close> for some \<open>k\<close> below the number of iterations left.
\<close>

lemma retry_from_journal:
  "attempt < max_retries \<Longrightarrow>
   \<exists>k es. k < max_retries - attempt
      \<and> journal (snd (retry_from attempt q f c)) = journal c @ es
      \<and> filter driver_call es = retry_pattern k q"
proof (induction attempt q f c rule: retry_from.induct)
  case (1 attempt q f c)
  obtain r c1 where t: "try_execute q f c = (r, c1)"
    by (cases "try_execute q f c")
  obtain es1 where es1: "journal c1 = journal c @ es1" "filter driver_call es1 = [Execute q]"
    using try_execute_journal[of q f c] t by auto
  show ?case
  proof (cases r)
    case (Inr rows)
    then have "retry_from attempt q f c = (Inr rows, c1)"
      by (subst retry_from.simps) (simp add: t)
    with es1 1(2) show ?thesis
      by (intro exI[of _ 0] exI[of _ es1]) simp
  next
    case (Inl e)
    show ?thesis
    proof (cases "e = OperationalError")
      case False
      then have "journal (snd (retry_from attempt q f c)) = journal c1 @ [Rollback]"
        by (subst retry_from.simps)
           (auto simp add: t Inl split: prod.splits sum.splits dest: conn_rollback_journal)
      with es1 1(2) show ?thesis
        by (intro exI[of _ 0] exI[of _ "es1 @ [Rollback]"]) simp
    next
      case True
      show ?thesis
      proof (cases "attempt < max_retries - 1")
        case False
        then have "retry_from attempt q f c = (Inl e, c1)"
          by (subst retry_from.simps) (simp add: t Inl True)
        with es1 1(2) show ?thesis
          by (intro exI[of _ 0] exI[of _ es1]) simp
      next
        case lt: True
        have eq: "retry_from attempt q f c = retry_from (Suc attempt) q f (wait_and_reconnect c1)"
          using lt by (subst retry_from.simps) (simp add: t Inl True)
        have "Suc attempt < max_retries"
          using lt by simp
        from 1(1)[OF t[symmetric] Inl True lt this]
        obtain k es where k: "k < max_retries - Suc attempt"
          "journal (snd (retry_from (Suc attempt) q f (wait_and_reconnect c1)))
             = journal (wait_and_reconnect c1) @ es"
          "filter driver_call es = retry_pattern k q"
          by blast
        show ?thesis
          using k es1 eq
          by (intro exI[of _ "Suc k"] exI[of _ "es1 @ [LogWarning, Sleep 1000, Connect] @ es"])
             simp
      qed
    qed
  qed
qed

lemma retry_from_operational:
  "faults c = Some OperationalError # rest \<Longrightarrow> attempt < max_retries - 1 \<Longrightarrow>
   retry_from attempt q f c =
     retry_from (Suc attempt) q f
       (wait_and_reconnect ((log_event (Execute q) c)\<lparr>faults := rest\<rparr>))"
  by (subst retry_from.simps) (simp add: try_execute_fault)

lemma retry_from_last:
  "faults c = Some OperationalError # rest \<Longrightarrow> \<not> attempt < max_retries - 1 \<Longrightarrow>
   retry_from attempt q f c =
     (Inl OperationalError, (log_event (Execute q) c)\<lparr>faults := rest\<rparr>)"
  by (subst retry_from.simps) (simp add: try_execute_fault)

lemma retry_exhausted:
  assumes "faults c = Some OperationalError # r1 # Some OperationalError # r2
                        # Some OperationalError # rest"
  shows "fst (retry_from 0 q f c) = Inl OperationalError"
    and "journal (snd (retry_from 0 q f c)) = journal c @
          [Execute q, LogWarning, Sleep 1000, Connect,
           Execute q, LogWarning, Sleep 1000, Connect, Execute q]"
    and "faults (snd (retry_from 0 q f c)) = rest"
  using assms by (simp_all add: retry_from_operational retry_from_last max_retries_def)

lemma retry_from_fault_other:
  assumes "faults c = Some e # rb # rest" "e \<noteq> OperationalError"
  shows "fst (retry_from attempt q f c) = Inl (case rb of None \<Rightarrow> e | Some e' \<Rightarrow> e')"
    and "journal (snd (retry_from attempt q f c)) = journal c @ [Execute q, Rollback]"
  using assms
  by (subst retry_from.simps,
      simp add: try_execute_def cursor_execute_def conn_rollback_def next_fault_def
        log_event_def split: option.splits)+

lemma retry_from_backend_error:
  assumes "faults c = []" "run_stmt (clock c) q (pending c) = Inl e" "e \<noteq> OperationalError"
  shows "fst (retry_from attempt q f c) = Inl e"
    and "journal (snd (retry_from attempt q f c)) = journal c @ [Execute q, Rollback]"
  using assms
  by (subst retry_from.simps,
      simp add: try_execute_def cursor_execute_def conn_rollback_def next_fault_def
        log_event_def split: option.splits)+

text \<open>
  C5. The retry policy of \<open>_execute_with_retry\<close>, for every statement, fetch mode and
  connection. (1) Whatever the driver does, the statement is executed at most
  \<open>max_retries = 3\<close> times in all, and between two consecutive executions there is
  exactly a warning, a sleep of one second (1000 ms) and a reconnection attempt. (2) When
  the three executions fail with \<open>OperationalError\<close>, whether the reconnections succeed
  or not, the third failure is raised to the caller, after two sleeps and two
  reconnection attempts. (3) An exception other than \<open>OperationalError\<close> is not retried:
  the only further call is the rollback, and the exception is raised (the exception of
  the rollback, when the rollback itself raises); this holds for a fault of the driver
  and (4) for an error of the backend such as a violated constraint.
\<close>

theorem execute_with_retry_policy:
  "(\<exists>k es. k < 3 \<and> journal (snd (execute_with_retry q f c)) = journal c @ es
       \<and> filter driver_call es = retry_pattern k q)
   \<and> (let r = execute_with_retry q f
               (c\<lparr>faults := Some OperationalError # r1 # Some OperationalError # r2
                              # Some OperationalError # rest\<rparr>)
      in fst r = Inl OperationalError \<and> faults (snd r) = rest
         \<and> journal (snd r) = journal c @
             [Execute q, LogWarning, Sleep 1000, Connect,
              Execute q, LogWarning, Sleep 1000, Connect, Execute q])
   \<and> (e \<noteq> OperationalError \<longrightarrow>
        (let r = execute_with_retry q f (c\<lparr>faults := Some e # rb # rest\<rparr>)
         in fst r = Inl (case rb of None \<Rightarrow> e | Some e' \<Rightarrow> e')
            \<and> journal (snd r) = journal c @ [Execute q, Rollback]))
   \<and> (e \<noteq> OperationalError \<and> run_stmt (clock c) q (pending c) = Inl e \<longrightarrow>
        (let r = execute_with_retry q f (c\<lparr>faults := []\<rparr>)
         in fst r = Inl e \<and> journal (snd r) = journal c @ [Execute q, Rollback]))"
proof -
  have g: "\<exists>k es. k < 3 \<and> journal (snd (retry_from 0 q f c)) = journal c @ es
       \<and> filter driver_call es = retry_pattern k q"
    using retry_from_journal[of 0 q f c] by (simp add: max_retries_def)
  show ?thesis
    unfolding execute_with_retry_def Let_def
    using g by (simp add: retry_exhausted retry_from_fault_other retry_from_backend_error)
qed

theorem execute_with_retry_policy_witness:
  "IntegrityError \<noteq> OperationalError
   \<and> run_stmt (clock (fresh_conn db1)) (InsertCategory ''a1'' ''B'' 7)
        (pending (fresh_conn db1)) = Inl IntegrityError
   \<and> fst (execute_with_retry (InsertCategory ''a1'' ''B'' 7) FetchNone
            ((fresh_conn db1)\<lparr>faults := [Some IntegrityError, None]\<rparr>)) = Inl IntegrityError
   \<and> fst (execute_with_retry (InsertCategory ''a1'' ''B'' 7) FetchNone
            ((fresh_conn db1)\<lparr>faults := []\<rparr>)) = Inl IntegrityError"
  using execute_with_retry_policy [of "InsertCategory ''a1'' ''B'' 7" FetchNone
          "fresh_conn db1" None None "[]" IntegrityError None]
  by (simp add: db1_def empty_db_def fresh_conn_def Let_def)

section \<open>Statements without faults\<close>

lemma retry_pattern_executes: "Execute q' \<in> set (retry_pattern k q) \<Longrightarrow> q' = q"
  by (induction k) auto

lemma execute_with_retry_statements:
  "\<exists>es. journal (snd (execute_with_retry q f c)) = journal c @ es
        \<and> (\<forall>q'. Execute q' \<in> set es \<longrightarrow> q' = q)"
proof -
  obtain k es where k: "journal (snd (retry_from 0 q f c)) = journal c @ es"
      "filter driver_call es = retry_pattern k q"
    using retry_from_journal[of 0 q f c] by (auto simp: max_retries_def)
  have "q' = q" if "Execute q' \<in> set es" for q'
  proof -
    from that have "Execute q' \<in> set (filter driver_call es)" by simp
    then show ?thesis using k(2) retry_pattern_executes by simp
  qed
  with k(1) show ?thesis by (auto simp: execute_with_retry_def)
qed

lemma get_category_statements:
  "\<exists>es. journal (snd (get_category cid c)) = journal c @ es
        \<and> (\<forall>q'. Execute q' \<in> set es \<longrightarrow> q' = SelectCategory cid \<or> q' = SelectFilesOf cid)"
proof -
  obtain r1 c1 where e1: "execute_with_retry (SelectCategory cid) FetchOne c = (r1, c1)"
    by (cases "execute_with_retry (SelectCategory cid) FetchOne c")
  obtain es1 where es1: "journal c1 = journal c @ es1"
      "\<forall>q'. Execute q' \<in> set es1 \<longrightarrow> q' = SelectCategory cid"
    using execute_with_retry_statements[of "SelectCategory cid" FetchOne c] e1 by auto
  obtain r2 c2 where e2: "execute_with_retry (SelectFilesOf cid) FetchAll c1 = (r2, c2)"
    by (cases "execute_with_retry (SelectFilesOf cid) FetchAll c1")
  obtain es2 where es2: "journal c2 = journal c1 @ es2"
      "\<forall>q'. Execute q' \<in> set es2 \<longrightarrow> q' = SelectFilesOf cid"
    using execute_with_retry_statements[of "SelectFilesOf cid" FetchAll c1] e2 by auto
  have "journal (snd (get_category cid c)) \<in>
          {journal c @ es1, journal c @ es1 @ [LogError],
           journal c @ es1 @ es2, journal c @ es1 @ es2 @ [LogError]}"
    using es1(1) es2(1)
    by (auto simp: get_category_def e1 e2 split: sum.splits list.splits)
  then show ?thesis
    using es1(2) es2(2) by auto
qed

lemma committed_fields [simp]:
  "stored (committed qs d c) = d" "pending (committed qs d c) = d"
  "faults (committed qs d c) = faults c" "clock (committed qs d c) = clock c + length qs"
  "journal (committed qs d c) = journal c @ concat (map (\<lambda>q. [Execute q, Commit]) qs)"
  by (simp_all add: committed_def)

lemma committed_committed [simp]:
  "committed qs' d' (committed qs d c) = committed (qs @ qs') d' c"
  by (simp add: committed_def)

lemma try_execute_ok:
  "faults c = [] \<Longrightarrow> run_stmt (clock c) q (pending c) = Inr (rows, d) \<Longrightarrow>
   try_execute q f c = (Inr (fetched f rows), committed [q] d c)"
  by (simp add: try_execute_def cursor_execute_def conn_commit_def next_fault_def committed_def log_event_def)

lemma execute_with_retry_ok:
  "faults c = [] \<Longrightarrow> run_stmt (clock c) q (pending c) = Inr (rows, d) \<Longrightarrow>
   execute_with_retry q f c = (Inr (fetched f rows), committed [q] d c)"
  unfolding execute_with_retry_def
  by (subst retry_from.simps) (simp add: try_execute_ok)

lemma chan_rows_map [simp]: "chan_rows (map ChanRow rs) = rs"
  by (induction rs) auto
lemma cat_rows_map [simp]: "cat_rows (map CatRow rs) = rs"
  by (induction rs) auto
lemma file_rows_map [simp]: "file_rows (map FileRow rs) = rs"
  by (induction rs) auto

lemma get_channels_ok:
  "faults c = [] \<Longrightarrow>
   get_channels c = (Inr (map channel_dict (order_by_created_at (channels (pending c)))),
                     committed [SelectChannels] (pending c) c)"
  by (simp add: get_channels_def execute_with_retry_ok)

lemma cat_rows_take: "cat_rows (take n (map CatRow rs)) = take n rs"
  by (simp add: take_map)

lemma get_category_ok:
  "faults c = [] \<Longrightarrow>
   get_category cid c =
     (Inr (lookup_category cid (pending c)),
      committed (if lookup_category cid (pending c) = None then [SelectCategory cid]
                 else [SelectCategory cid, SelectFilesOf cid]) (pending c) c)"
  by (cases "filter (\<lambda>r. cr_id r = cid) (categories (pending c))")
     (simp_all add: get_category_def execute_with_retry_ok lookup_category_def cat_rows_take)

section \<open>Properties of the handlers\<close>

lemma emit_fields [simp]:
  "outbox (emit a b) = outbox b @ [a]"
  "db (emit a b) = db b"
  "pending_uploads (emit a b) = pending_uploads b"
  by (simp_all add: emit_def)

lemma reply_text_fields [simp]:
  "outbox (reply_text u t kb b) = outbox b @ [ReplyText (reply_chat u) t kb]"
  "db (reply_text u t kb b) = db b"
  "pending_uploads (reply_text u t kb b) = pending_uploads b"
  by (simp_all add: reply_text_def)

lemma edit_message_text_fields [simp]:
  "outbox (edit_message_text t kb b) = outbox b @ [EditMessageText t kb]"
  "db (edit_message_text t kb b) = db b"
  "pending_uploads (edit_message_text t kb b) = pending_uploads b"
  by (simp_all add: edit_message_text_def)

lemma with_db_fields:
  "with_db operation b = (r, b1) \<Longrightarrow>
     fst (operation (db b)) = r \<and> db b1 = snd (operation (db b)) \<and> outbox b1 = outbox b
     \<and> pending_uploads b1 = pending_uploads b"
  by (auto simp: with_db_def split: prod.splits)

section \<open>Access control\<close>

text \<open>
  C1. For a user in \<open>ADMIN_IDS\<close> and any category id, whatever the channels and the
  memberships are, \<open>handle_category_access\<close> on the update of a deep link is
  \<open>handle_admin_category_access\<close>:
  the statements it executes never include the selection of the channels, and its only
  action on the transport is one reply, the administrator's menu of the category (or
  the not-found message when the category is absent or could not be read), so no
  membership is queried.
\<close>

theorem admin_access_unconditional:
  assumes "is_admin e (effective_user u)"
  shows "handle_category_access e (Update u) category_id b
           = handle_admin_category_access (Update u) category_id b
       \<and> (\<exists>es a. journal (db (snd (handle_category_access e (Update u) category_id b)))
                    = journal (db b) @ es
               \<and> Execute SelectChannels \<notin> set es
               \<and> outbox (snd (handle_category_access e (Update u) category_id b))
                    = outbox b @ [a]
               \<and> (a = ReplyText (effective_chat u) CategoryNotFound []
                    \<or> (\<exists>nm n. a = ReplyText (effective_chat u) (AdminMenu nm n)
                                    (admin_keyboard category_id))))"
proof -
  have eq: "handle_category_access e (Update u) category_id b
           = handle_admin_category_access (Update u) category_id b"
    using assms by (simp add: handle_category_access_def)
  obtain r b1 where w: "with_db (get_category category_id) b = (r, b1)"
    by (cases "with_db (get_category category_id) b")
  note f = with_db_fields[OF w]
  obtain es where es: "journal (db b1) = journal (db b) @ es"
     "\<forall>q'. Execute q' \<in> set es \<longrightarrow> q' = SelectCategory category_id \<or> q' = SelectFilesOf category_id"
    using get_category_statements[of category_id "db b"] f by auto
  have "\<exists>v. r = Inr v"
    using f by (auto simp: get_category_def split: prod.splits sum.splits list.splits)
  then obtain v where v: "r = Inr v"
    by blast
  have "\<exists>a. journal (db (snd (handle_admin_category_access (Update u) category_id b)))
               = journal (db b1)
      \<and> outbox (snd (handle_admin_category_access (Update u) category_id b)) = outbox b @ [a]
      \<and> (a = ReplyText (effective_chat u) CategoryNotFound []
           \<or> (\<exists>nm n. a = ReplyText (effective_chat u) (AdminMenu nm n)
                           (admin_keyboard category_id)))"
    using f by (cases v) (auto simp: handle_admin_category_access_def w v)
  with es eq show ?thesis
    by auto
qed

theorem admin_access_unconditional_witness:
  "is_admin env1 (effective_user (command_from 7 [''cat_a1'']))
   \<and> channels (stored (db (bot0 db2))) \<noteq> []
   \<and> handle_category_access env1 (Update (command_from 7 [''cat_a1''])) ''a1'' (bot0 db2)
       = handle_admin_category_access (Update (command_from 7 [''cat_a1''])) ''a1'' (bot0 db2)"
  using admin_access_unconditional [of env1 "command_from 7 [''cat_a1'']" "''a1''" "bot0 db2"]
  by (simp add: is_admin_def env1_def command_from_def bot0_def fresh_conn_def db2_def)

lemma is_membership_query_simps [simp]:
  "is_membership_query (GetChatMember ch uid)" "\<not> is_membership_query LogErrorMsg"
  by (simp_all add: is_membership_query_def)



lemma with_db_get_channels_ok:
  "faults (db b) = [] \<Longrightarrow>
   with_db get_channels b =
     (Inr (map channel_dict (order_by_created_at (channels (pending (db b))))),
      b\<lparr>db := committed [SelectChannels] (pending (db b)) (db b)\<rparr>)"
  by (simp add: with_db_def get_channels_ok)


text \<open>
  C3 (what the code does at the re-check button). \<open>button_handler\<close> passes the
  \<open>CallbackQuery\<close> itself to \<open>handle_category_access\<close>, whose first statement reads
  \<open>update.effective_user\<close>: the handler raises \<open>AttributeError\<close> after answering the
  callback, before the administrator check, the selection of the channels and any
  membership query. For the user 8 and the two channels of the example nothing but the
  answer reaches the transport and no statement reaches the database.
\<close>

theorem recheck_button_raises:
  "button_handler env1 (button_from 8 ''check_membership_a1'') (bot0 db2)
     = (Inl AttributeError, emit AnswerCallback (bot0 db2))
   \<and> outbox (snd (button_handler env1 (button_from 8 ''check_membership_a1'') (bot0 db2)))
     = [AnswerCallback]
   \<and> journal (db (snd (button_handler env1 (button_from 8 ''check_membership_a1'') (bot0 db2))))
     = []"
  by (simp add: button_handler_def button_from_def startswith_def handle_category_access_def
        Let_def bot0_def fresh_conn_def emit_def)

text \<open>
  The same holds for every press of the re-check button, while the deep link of the
  same user does ask the transport about both channels.
\<close>

lemma recheck_never_evaluates:
  "startswith (data query) ''check_membership_'' \<Longrightarrow>
   button_handler e query b = (Inl AttributeError, emit AnswerCallback b)"
  by (simp add: button_handler_def handle_category_access_def Let_def)

lemma start_evaluates:
  "filter is_membership_query
     (outbox (snd (start env1 (command_from 8 [''cat_a1'']) (bot0 db2))))
   = [GetChatMember ''-1001'' 8, GetChatMember ''-1002'' 8]"
  by (simp add: start_def startswith_def handle_category_access_def command_from_def
        is_admin_def env1_def with_db_get_channels_ok bot0_def fresh_conn_def db2_def
        order_by_created_at_def ch1_def ch2_def channel_dict_def Let_def is_membership_query_def)

section \<open>Delivery\<close>

lemma with_db_get_category_ok:
  "faults (db b) = [] \<Longrightarrow>
   with_db (get_category cid) b =
     (Inr (lookup_category cid (pending (db b))),
      b\<lparr>db := committed (if lookup_category cid (pending (db b)) = None
                          then [SelectCategory cid]
                          else [SelectCategory cid, SelectFilesOf cid])
                   (pending (db b)) (db b)\<rparr>)"
  by (simp add: with_db_def get_category_ok)

lemma lookup_db3:
  "lookup_category ''a1'' db3 =
     Some \<lparr>name = ''A'',
           cat_files = [\<lparr>file_id = ''tok-video'', file_name = ''video.mp4'', file_size = 1024,
                          file_type = ''video'', caption = ''clip''\<rparr>],
           created_by = 7, created_at = 0\<rparr>"
  by (simp add: lookup_category_def db3_def db1_def empty_db_def files_of_def
        order_by_upload_date_def video1_def file_dict_def)

text \<open>
  The loop of \<open>send_category_files\<close> makes, for every file of a supported kind and
  whichever sends fail, exactly the send of that kind with the stored token and caption,
  in the order of the files.
\<close>

lemma send_operation_media:
  "send_operation ty = Some send \<Longrightarrow> is_media_send (send chat token cap)"
  by (auto simp: send_operation_def is_media_send_def split: if_splits)

lemma send_operation_supported:
  "ty \<in> {''document'', ''photo'', ''video'', ''audio'', ''voice''} \<Longrightarrow>
   \<exists>send. send_operation ty = Some send"
  by (auto simp: send_operation_def)

lemma is_media_send_simps [simp]:
  "\<not> is_media_send (AsyncSleep n)" "\<not> is_media_send LogErrorMsg"
  by (simp_all add: is_media_send_def)

lemma send_one_sends:
  "filter is_media_send
     (outbox (send_one e (Inr chat) (send_operation (file_type fi)) fi b))
   = filter is_media_send (outbox b) @ expected_send chat fi"
  by (auto simp: send_one_def expected_send_def Let_def send_operation_media
      split: option.splits)

lemma send_files_one_send_per_file:
  "filter is_media_send (outbox (send_files e (Update u) fs b))
   = filter is_media_send (outbox b) @ concat (map (expected_send (effective_chat u)) fs)"
  by (induction fs arbitrary: b) (simp_all add: send_one_sends)

lemma fresh_conn_fields:
  "stored (fresh_conn d) = d" "pending (fresh_conn d) = d" "faults (fresh_conn d) = []"
  "clock (fresh_conn d) = 0" "journal (fresh_conn d) = []"
  by (simp_all add: fresh_conn_def)

lemma bot0_fields:
  "db (bot0 d) = fresh_conn d" "pending_uploads (bot0 d) = Map.empty" "outbox (bot0 d) = []"
  by (simp_all add: bot0_def)

text \<open>
  C9 (what the code does on the administrator's view path). For the category \<open>a1\<close>
  holding one stored video, the button \<open>view_a1\<close> pressed by the administrator makes
  \<open>view_category_files\<close> edit the message and sleep, but send no media at all: its
  chain has no branch for \<open>video\<close>, \<open>audio\<close> or \<open>voice\<close>. The deep link of the
  same category, through \<open>send_category_files\<close>, sends the video with its stored token
  and caption.
\<close>

theorem view_category_files_skips_video:
  "outbox (snd (button_handler env1 (button_from 7 ''view_a1'') (bot0 db3)))
     = [AnswerCallback, EditMessageText SendingFiles [], AsyncSleep 500]
   \<and> outbox (snd (start env1 (command_from 8 [''cat_a1'']) (bot0 db3)))
     = [ReplyText 8 (SendingCategory ''A'') [], SendVideo 8 ''tok-video'' ''clip'', AsyncSleep 500]"
proof -
  have ch: "channels db3 = []"
    by (simp add: db3_def db1_def empty_db_def)
  have view: "outbox (snd (button_handler env1 (button_from 7 ''view_a1'') (bot0 db3)))
     = [AnswerCallback, EditMessageText SendingFiles [], AsyncSleep 500]"
    by (simp add: button_handler_def startswith_def is_admin_def view_category_files_def
          with_db_get_category_ok lookup_db3 bot0_fields fresh_conn_fields send_one_def
          view_operation_def button_from_def env1_def Let_def)
  have link: "outbox (snd (start env1 (command_from 8 [''cat_a1'']) (bot0 db3)))
     = [ReplyText 8 (SendingCategory ''A'') [], SendVideo 8 ''tok-video'' ''clip'', AsyncSleep 500]"
    by (simp add: start_def startswith_def handle_category_access_def is_admin_def
          send_category_files_def with_db_get_category_ok with_db_get_channels_ok
          order_by_created_at_def ch lookup_db3 bot0_fields fresh_conn_fields send_one_def
          send_operation_def command_from_def env1_def Let_def)
  from view link show ?thesis
    by simp
qed

section \<open>Failures at the public interface\<close>

text \<open>
  C10 (what the code does when the rollback of its handler fails). With the connection
  lost, \<open>executemany\<close> (or \<open>execute\<close>) raises \<open>OperationalError\<close> and the
  \<open>self.conn.rollback()\<close> that opens the \<open>except\<close> branch of
  \<open>add_files_to_category\<close> and of \<open>delete_file\<close> raises in turn: the operation
  raises \<open>InterfaceError\<close> instead of returning \<open>False\<close>.
\<close>

theorem batch_insert_raises_when_rollback_fails:
  "fst (add_files_to_category ''a1'' [file_dict video1]
          ((fresh_conn db1)\<lparr>faults := [Some OperationalError, Some InterfaceError]\<rparr>))
     = Inl InterfaceError
   \<and> fst (delete_file ''a1'' 0
          ((fresh_conn db3)\<lparr>faults := [Some OperationalError, Some InterfaceError]\<rparr>))
     = Inl InterfaceError"
  by (simp add: add_files_to_category_def delete_file_def cursor_executemany_def
        cursor_execute_def rollback_and_fail_def conn_rollback_def next_fault_def
        fresh_conn_def log_event_def)

text \<open>
  The operations that go through \<open>_execute_with_retry\<close> never raise, whatever the
  driver does, and return their sentinel when the wrapper raises.
\<close>

lemma add_category_never_raises: "\<exists>v. fst (add_category cid nm creator c) = Inr v"
  by (auto simp add: add_category_def Let_def split: prod.splits sum.splits list.splits)

lemma get_categories_never_raises: "\<exists>v. fst (get_categories c) = Inr v"
  by (auto simp add: get_categories_def Let_def split: prod.splits sum.splits list.splits)

lemma get_category_never_raises: "\<exists>v. fst (get_category cid c) = Inr v"
  by (auto simp add: get_category_def Let_def split: prod.splits sum.splits list.splits)

lemma delete_category_never_raises: "\<exists>v. fst (delete_category cid c) = Inr v"
  by (auto simp add: delete_category_def Let_def split: prod.splits sum.splits list.splits)

lemma add_file_to_category_never_raises: "\<exists>v. fst (add_file_to_category cid fi c) = Inr v"
  by (auto simp add: add_file_to_category_def Let_def split: prod.splits sum.splits list.splits)

lemma add_channel_never_raises: "\<exists>v. fst (add_channel chid nm link c) = Inr v"
  by (auto simp add: add_channel_def Let_def split: prod.splits sum.splits list.splits)

lemma get_channels_never_raises: "\<exists>v. fst (get_channels c) = Inr v"
  by (auto simp add: get_channels_def Let_def split: prod.splits sum.splits list.splits)

lemma delete_channel_never_raises: "\<exists>v. fst (delete_channel chid c) = Inr v"
  by (auto simp add: delete_channel_def Let_def split: prod.splits sum.splits list.splits)

lemma add_category_sentinel:
  "fst (execute_with_retry (InsertCategory cid nm creator) FetchNone c) = Inl ex \<Longrightarrow> fst (add_category cid nm creator c) = Inr False"
  by (cases "execute_with_retry (InsertCategory cid nm creator) FetchNone c") (simp add: add_category_def)

lemma get_categories_sentinel:
  "fst (execute_with_retry (SelectCategories) FetchAll c) = Inl ex \<Longrightarrow> fst (get_categories c) = Inr []"
  by (cases "execute_with_retry (SelectCategories) FetchAll c") (simp add: get_categories_def)

lemma get_category_sentinel:
  "fst (execute_with_retry (SelectCategory cid) FetchOne c) = Inl ex \<Longrightarrow> fst (get_category cid c) = Inr None"
  by (cases "execute_with_retry (SelectCategory cid) FetchOne c") (simp add: get_category_def)

lemma delete_category_sentinel:
  "fst (execute_with_retry (DeleteCategory cid) FetchNone c) = Inl ex \<Longrightarrow> fst (delete_category cid c) = Inr False"
  by (cases "execute_with_retry (DeleteCategory cid) FetchNone c") (simp add: delete_category_def)

lemma add_file_to_category_sentinel:
  "fst (execute_with_retry (InsertFile cid fi) FetchNone c) = Inl ex \<Longrightarrow> fst (add_file_to_category cid fi c) = Inr False"
  by (cases "execute_with_retry (InsertFile cid fi) FetchNone c") (simp add: add_file_to_category_def)

lemma add_channel_sentinel:
  "fst (execute_with_retry (InsertChannel chid nm link) FetchNone c) = Inl ex \<Longrightarrow> fst (add_channel chid nm link c) = Inr False"
  by (cases "execute_with_retry (InsertChannel chid nm link) FetchNone c") (simp add: add_channel_def)

lemma get_channels_sentinel:
  "fst (execute_with_retry (SelectChannels) FetchAll c) = Inl ex \<Longrightarrow> fst (get_channels c) = Inr []"
  by (cases "execute_with_retry (SelectChannels) FetchAll c") (simp add: get_channels_def)

lemma delete_channel_sentinel:
  "fst (execute_with_retry (DeleteChannel chid) FetchNone c) = Inl ex \<Longrightarrow> fst (delete_channel chid c) = Inr False"
  by (cases "execute_with_retry (DeleteChannel chid) FetchNone c") (simp add: delete_channel_def)

section \<open>Files of a category\<close>

lemma file_dict_new_file_row [simp]: "file_dict (new_file_row i t cid fi) = fi"
  by (simp add: file_dict_def new_file_row_def)

lemma new_file_row_fields [simp]:
  "fr_category_id (new_file_row i t cid fi) = cid"
  "fr_file_id (new_file_row i t cid fi) = file_id fi"
  "fr_id (new_file_row i t cid fi) = i"
  "fr_upload_date (new_file_row i t cid fi) = t"
  by (simp_all add: new_file_row_def)

lemma run_all_insert_ignore:
  "cid \<in> cr_id ` set (categories d) \<Longrightarrow>
   \<exists>new. run_all t (map (InsertFileIgnore cid) fs) d
            = Inr (d\<lparr>files := files d @ new, files_seq := files_seq d + length fs\<rparr>)
        \<and> map file_dict new = kept_rows (map fr_file_id (files d)) fs
        \<and> (\<forall>r \<in> set new. fr_category_id r = cid)"
proof (induction fs arbitrary: d)
  case Nil
  then show ?case by simp
next
  case (Cons f fs)
  show ?case
  proof (cases "file_id f \<in> fr_file_id ` set (files d)")
    case True
    let ?d1 = "d\<lparr>files_seq := Suc (files_seq d)\<rparr>"
    from Cons.IH[of ?d1] Cons.prems
    obtain new where n: "run_all t (map (InsertFileIgnore cid) fs) ?d1
            = Inr (?d1\<lparr>files := files ?d1 @ new, files_seq := files_seq ?d1 + length fs\<rparr>)"
        "map file_dict new = kept_rows (map fr_file_id (files ?d1)) fs"
        "\<forall>r \<in> set new. fr_category_id r = cid"
      by auto
    show ?thesis
      using True n by (intro exI[of _ new]) simp
  next
    case False
    let ?row = "new_file_row (files_seq d) t cid f"
    let ?d1 = "d\<lparr>files := files d @ [?row], files_seq := Suc (files_seq d)\<rparr>"
    from Cons.IH[of ?d1] Cons.prems
    obtain new where n: "run_all t (map (InsertFileIgnore cid) fs) ?d1
            = Inr (?d1\<lparr>files := files ?d1 @ new, files_seq := files_seq ?d1 + length fs\<rparr>)"
        "map file_dict new = kept_rows (map fr_file_id (files ?d1)) fs"
        "\<forall>r \<in> set new. fr_category_id r = cid"
      by auto
    show ?thesis
      using False n Cons.prems by (intro exI[of _ "?row # new"]) simp
  qed
qed

lemma add_files_to_category_ok:
  "faults c = [] \<Longrightarrow> run_all (clock c) (map (InsertFileIgnore cid) fs) (pending c) = Inr d \<Longrightarrow>
   add_files_to_category cid fs c =
     (Inr True, c\<lparr>stored := d, pending := d, clock := Suc (clock c),
                  journal := journal c @ [ExecuteMany (map (InsertFileIgnore cid) fs), Commit]\<rparr>)"
  by (simp add: add_files_to_category_def cursor_executemany_def conn_commit_def next_fault_def
        log_event_def)

lemma length_files_of_append:
  "length (files_of cid (d\<lparr>files := files d @ new, files_seq := n\<rparr>))
     = length (files_of cid d) + length (filter (\<lambda>f. fr_category_id f = cid) new)"
  by (simp add: files_of_def order_by_upload_date_def)

text \<open>
  C6. On a connection without faults and for a stored category, the batch insert
  returns success and appends to the stored files exactly the rows of the batch that
  \<open>kept_rows\<close> keeps, all in that category: a row whose \<open>file_id\<close> is already in the
  store or earlier in the batch is skipped and the rows after it are still inserted.
  For a batch \<open>[f1, f2, f1]\<close> with \<open>f1\<close> stored and \<open>f2\<close> not, the only new row
  is \<open>f2\<close> and the file count of the category grows by exactly one.
\<close>

theorem batch_insert_skips_duplicates:
  assumes "faults c = []" and "cid \<in> cr_id ` set (categories (pending c))"
  shows "\<exists>c' new. add_files_to_category cid fs c = (Inr True, c')
         \<and> files (stored c') = files (pending c) @ new
         \<and> map file_dict new = kept_rows (map fr_file_id (files (pending c))) fs
         \<and> (\<forall>r \<in> set new. fr_category_id r = cid)
         \<and> length (files_of cid (stored c')) = length (files_of cid (pending c)) + length new
         \<and> (\<forall>f1 f2. fs = [f1, f2, f1]
               \<and> file_id f1 \<in> fr_file_id ` set (files (pending c))
               \<and> file_id f2 \<notin> fr_file_id ` set (files (pending c))
               \<longrightarrow> map file_dict new = [f2]
                 \<and> length (files_of cid (stored c'))
                     = length (files_of cid (pending c)) + 1)"
proof -
  obtain new where n: "run_all (clock c) (map (InsertFileIgnore cid) fs) (pending c)
            = Inr ((pending c)\<lparr>files := files (pending c) @ new,
                                files_seq := files_seq (pending c) + length fs\<rparr>)"
        "map file_dict new = kept_rows (map fr_file_id (files (pending c))) fs"
        "\<forall>r \<in> set new. fr_category_id r = cid"
    using run_all_insert_ignore[OF assms(2), of "clock c" fs] by auto
  have len: "length (filter (\<lambda>f. fr_category_id f = cid) new) = length new"
    using n(3) by (simp add: filter_id_conv)
  have scen: "\<forall>f1 f2. fs = [f1, f2, f1]
               \<and> file_id f1 \<in> fr_file_id ` set (files (pending c))
               \<and> file_id f2 \<notin> fr_file_id ` set (files (pending c))
               \<longrightarrow> map file_dict new = [f2] \<and> length new = 1"
    using n(2) by (auto dest: arg_cong[where f = length])
  obtain c' where c': "add_files_to_category cid fs c = (Inr True, c')"
      "stored c' = (pending c)\<lparr>files := files (pending c) @ new,
                                 files_seq := files_seq (pending c) + length fs\<rparr>"
    using add_files_to_category_ok[OF assms(1) n(1)] by simp
  have cnt: "length (files_of cid (stored c')) = length (files_of cid (pending c)) + length new"
    unfolding c'(2) by (simp add: length_files_of_append len)
  have fl: "files (stored c') = files (pending c) @ new"
    unfolding c'(2) by simp
  show ?thesis
    using c'(1) fl n(2,3) cnt scen
    by (intro exI[of _ c'] exI[of _ new]) simp
qed

lemma files_of_db3: "files_of ''a1'' db3 = [video1]"
  by (simp add: files_of_def order_by_upload_date_def db3_def db1_def empty_db_def video1_def)

theorem batch_insert_skips_duplicates_witness:
  "faults (fresh_conn db3) = []
   \<and> ''a1'' \<in> cr_id ` set (categories (pending (fresh_conn db3)))
   \<and> file_id (file_dict video1) \<in> fr_file_id ` set (files (pending (fresh_conn db3)))
   \<and> file_id photo2 \<notin> fr_file_id ` set (files (pending (fresh_conn db3)))
   \<and> fst (add_files_to_category ''a1'' [file_dict video1, photo2, file_dict video1]
            (fresh_conn db3)) = Inr True
   \<and> length (files_of ''a1'' (stored (snd (add_files_to_category ''a1''
                [file_dict video1, photo2, file_dict video1] (fresh_conn db3))))) = 2"
proof -
  have h1: "faults (fresh_conn db3) = []"
    by (simp add: fresh_conn_def)
  have h2: "''a1'' \<in> cr_id ` set (categories (pending (fresh_conn db3)))"
    by (simp add: fresh_conn_def db3_def db1_def empty_db_def)
  have h3: "file_id (file_dict video1) \<in> fr_file_id ` set (files (pending (fresh_conn db3)))"
    by (simp add: fresh_conn_def db3_def file_dict_def video1_def)
  have h4: "file_id photo2 \<notin> fr_file_id ` set (files (pending (fresh_conn db3)))"
    by (simp add: fresh_conn_def db3_def photo2_def video1_def)
  have p: "pending (fresh_conn db3) = db3"
    by (simp add: fresh_conn_def)
  show ?thesis
    using batch_insert_skips_duplicates [OF h1 h2, of "[file_dict video1, photo2, file_dict video1]"]
      h1 h2 h3 h4
    by (auto simp: p files_of_db3)
qed

lemma distinct_map_insort_key:
  "distinct (map g (insort_key k x xs)) = (g x \<notin> g ` set xs \<and> distinct (map g xs))"
  by (induction xs) (auto simp: set_insort_key)

lemma distinct_map_sort_key: "distinct (map g (sort_key k xs)) = distinct (map g xs)"
  by (induction xs) (auto simp: distinct_map_insort_key)











section \<open>Listing the categories\<close>

lemma group_files_lookup:
  "group_files rs m cid =
     (if filter (\<lambda>r. fr_category_id r = cid) rs = [] then m cid
      else Some ((case m cid of None \<Rightarrow> [] | Some fs \<Rightarrow> fs)
                 @ map file_dict (filter (\<lambda>r. fr_category_id r = cid) rs)))"
  by (induction rs arbitrary: m) auto

lemma group_files_empty:
  "(case group_files rs Map.empty cid of None \<Rightarrow> [] | Some fs \<Rightarrow> fs)
     = map file_dict (filter (\<lambda>r. fr_category_id r = cid) rs)"
  by (simp add: group_files_lookup)

lemma dict_set_fresh: "k \<notin> fst ` set acc \<Longrightarrow> dict_set k v acc = acc @ [(k, v)]"
  by (induction acc) auto

lemma build_categories_distinct:
  "distinct (map cr_id rs) \<Longrightarrow> cr_id ` set rs \<inter> fst ` set acc = {} \<Longrightarrow>
   build_categories rs fbc acc =
     acc @ map (\<lambda>r. (cr_id r,
                 \<lparr>name = cr_name r,
                  cat_files = (case fbc (cr_id r) of None \<Rightarrow> [] | Some fs \<Rightarrow> fs),
                  created_by = cr_created_by r, created_at = cr_created_at r\<rparr>)) rs"
proof (induction rs arbitrary: acc)
  case Nil
  then show ?case by simp
next
  case (Cons r rs)
  have fresh: "cr_id r \<notin> fst ` set acc"
    using Cons.prems(2) by auto
  have "cr_id ` set rs \<inter> fst ` set (acc @ [(cr_id r, v)]) = {}" for v
    using Cons.prems by auto
  with Cons.IH[of "acc @ [(cr_id r, v)]" for v] Cons.prems(1) fresh
  show ?case by (simp add: dict_set_fresh)
qed

lemma files_in_then_of:
  "cid \<in> S \<Longrightarrow>
   filter (\<lambda>r. fr_category_id r = cid)
     (order_by_upload_date (filter (\<lambda>f. fr_category_id f \<in> S) (files d)))
   = files_of cid d"
proof -
  assume m: "cid \<in> S"
  have "filter (\<lambda>r. fr_category_id r = cid) (filter (\<lambda>f. fr_category_id f \<in> S) (files d))
          = filter (\<lambda>f. fr_category_id f = cid) (files d)"
    using m by (auto intro: filter_cong)
  then show ?thesis
    by (simp add: order_by_upload_date_def files_of_def filter_sort)
qed

lemma distinct_ids_desc:
  "distinct (map cr_id (order_by_created_at_desc rs)) = distinct (map cr_id rs)"
  by (simp add: order_by_created_at_desc_def rev_map[symmetric] distinct_map_sort_key)

lemma set_desc [simp]: "set (order_by_created_at_desc rs) = set rs"
  by (simp add: order_by_created_at_desc_def)

lemma get_categories_ok:
  assumes "faults c = []" and "distinct (map cr_id (categories (pending c)))"
  shows "get_categories c =
     (Inr (list_categories (pending c)),
      committed (if categories (pending c) = [] then [SelectCategories]
                 else [SelectCategories,
                       SelectFilesIn (map cr_id (order_by_created_at_desc (categories (pending c))))])
        (pending c) c)"
proof (cases "categories (pending c) = []")
  case True
  then show ?thesis
    using assms(1)
    by (simp add: get_categories_def execute_with_retry_ok list_categories_def
          order_by_created_at_desc_def)
next
  case False
  let ?d = "pending c"
  let ?rows = "order_by_created_at_desc (categories ?d)"
  have ne: "?rows \<noteq> []"
    using False by (metis set_desc set_empty)
  have d: "distinct (map cr_id ?rows)"
    using assms(2) by (simp add: distinct_ids_desc)
  have b: "build_categories ?rows
             (group_files (order_by_upload_date
                (filter (\<lambda>f. fr_category_id f \<in> set (map cr_id ?rows)) (files ?d))) Map.empty) []
           = list_categories ?d"
    unfolding list_categories_def
    by (subst build_categories_distinct[OF d])
       (auto simp: group_files_empty files_in_then_of category_entry_def)
  show ?thesis
    using assms(1) False ne b
    by (simp add: get_categories_def execute_with_retry_ok Let_def)
qed

lemma sorted_files_of: "sorted (map fr_upload_date (files_of cid d))"
  by (simp add: files_of_def order_by_upload_date_def)

lemma mset_files_of:
  "mset (files_of cid d) = mset (filter (\<lambda>f. fr_category_id f = cid) (files d))"
  by (simp add: files_of_def order_by_upload_date_def)

lemma list_categories_ids:
  "mset (map fst (list_categories d)) = mset (map cr_id (categories d))"
proof -
  have "map fst (list_categories d) = map cr_id (order_by_created_at_desc (categories d))"
    by (simp add: list_categories_def category_entry_def comp_def)
  then show ?thesis
    by (simp add: order_by_created_at_desc_def)
qed

lemma list_categories_desc:
  "sorted (rev (map (\<lambda>(cid, cat). created_at cat) (list_categories d)))"
proof -
  have "map (\<lambda>(cid, cat). created_at cat) (list_categories d)
          = rev (map cr_created_at (sort_key cr_created_at (categories d)))"
    by (simp add: list_categories_def category_entry_def comp_def order_by_created_at_desc_def
          rev_map)
  then show ?thesis
    by simp
qed

lemma list_categories_files:
  "\<forall>(cid, cat) \<in> set (list_categories d). cat_files cat = map file_dict (files_of cid d)"
  by (auto simp: list_categories_def category_entry_def)

text \<open>
  C7. On a connection without faults, with the category ids distinct (the primary key),
  \<open>get_categories\<close> returns the listing \<open>list_categories\<close> of the store: every
  stored category exactly once, in descending order of creation time, each with exactly
  the files of that category in ascending order of upload time. It executes two
  statements whatever the number of categories: the selection of the categories and one
  selection of the files over all the category ids (none when there is no category).
\<close>

theorem get_categories_listing:
  assumes "faults c = []" and "distinct (map cr_id (categories (pending c)))"
  shows "\<exists>c'. get_categories c = (Inr (list_categories (pending c)), c')
     \<and> journal c' = journal c @
         (if categories (pending c) = [] then [Execute SelectCategories, Commit]
          else [Execute SelectCategories, Commit,
                Execute (SelectFilesIn (map fst (list_categories (pending c)))), Commit])
     \<and> mset (map fst (list_categories (pending c))) = mset (map cr_id (categories (pending c)))
     \<and> sorted (rev (map (\<lambda>(cid, cat). created_at cat) (list_categories (pending c))))
     \<and> (\<forall>(cid, cat) \<in> set (list_categories (pending c)).
           cat_files cat = map file_dict (files_of cid (pending c)))
     \<and> (\<forall>cid. sorted (map fr_upload_date (files_of cid (pending c)))
           \<and> mset (files_of cid (pending c))
               = mset (filter (\<lambda>f. fr_category_id f = cid) (files (pending c))))"
proof -
  have ids: "map fst (list_categories (pending c))
               = map cr_id (order_by_created_at_desc (categories (pending c)))"
    by (simp add: list_categories_def category_entry_def comp_def)
  have "\<exists>c'. get_categories c = (Inr (list_categories (pending c)), c')
     \<and> journal c' = journal c @
         (if categories (pending c) = [] then [Execute SelectCategories, Commit]
          else [Execute SelectCategories, Commit,
                Execute (SelectFilesIn (map fst (list_categories (pending c)))), Commit])"
    using get_categories_ok[OF assms] by (simp add: ids)
  then show ?thesis
    using list_categories_ids[of "pending c"] list_categories_desc[of "pending c"]
      list_categories_files[of "pending c"] sorted_files_of mset_files_of
    by simp
qed

theorem get_categories_listing_witness:
  "faults (fresh_conn db4) = []
   \<and> distinct (map cr_id (categories (pending (fresh_conn db4))))
   \<and> fst (get_categories (fresh_conn db4)) = Inr (list_categories db4)
   \<and> map fst (list_categories db4) = [''b2'', ''a1'']
   \<and> map (\<lambda>(cid, cat). map file_id (cat_files cat)) (list_categories db4)
       = [[''tok-doc''], [''tok-audio'', ''tok-video'']]"
proof -
  have h1: "faults (fresh_conn db4) = []"
    by (simp add: fresh_conn_def)
  have h2: "distinct (map cr_id (categories (pending (fresh_conn db4))))"
    by (simp add: fresh_conn_def db4_def db3_def db1_def empty_db_def)
  have p: "pending (fresh_conn db4) = db4"
    by (simp add: fresh_conn_def)
  have l: "map fst (list_categories db4) = [''b2'', ''a1'']"
    by (simp add: list_categories_def category_entry_def order_by_created_at_desc_def
          db4_def db3_def db1_def empty_db_def)
  have f: "map (\<lambda>(cid, cat). map file_id (cat_files cat)) (list_categories db4)
       = [[''tok-doc''], [''tok-audio'', ''tok-video'']]"
    by (simp add: list_categories_def category_entry_def order_by_created_at_desc_def
          db4_def db3_def db1_def empty_db_def files_of_def order_by_upload_date_def
          video1_def doc3_def audio4_def file_dict_def)
  show ?thesis
    using get_categories_listing [OF h1 h2] h1 h2 l f
    by (auto simp: p)
qed

section \<open>Upload sessions\<close>










section \<open>The keys of the schema\<close>

text \<open>Every statement of the bot that succeeds keeps the keys of the schema.\<close>

lemma keys_ok_empty: "keys_ok empty_db"
  by (simp add: keys_ok_def empty_db_def)

lemma run_stmt_keys_ok:
  assumes "keys_ok d" and "run_stmt t q d = Inr (rows, d')"
  shows "keys_ok d'"
proof (cases q)
  case (InsertCategory cid nm creator)
  with assms show ?thesis
    by (auto simp: keys_ok_def list_all_iff split: if_splits)
next
  case (DeleteCategory cid)
  with assms show ?thesis
    by (fastforce simp: keys_ok_def list_all_iff distinct_map_filter image_iff)
next
  case (InsertFile cid fi)
  with assms show ?thesis
    by (fastforce simp: keys_ok_def list_all_iff split: if_splits)
next
  case (InsertFileIgnore cid fi)
  with assms show ?thesis
    by (fastforce simp: keys_ok_def list_all_iff split: if_splits)
next
  case (SelectFileAt cid off)
  with assms show ?thesis
    by (auto split: if_splits)
next
  case (DeleteFileById i)
  with assms show ?thesis
    by (auto simp: keys_ok_def list_all_iff distinct_map_filter)
next
  case (InsertChannel chid nm link)
  with assms show ?thesis
    by (auto simp: keys_ok_def list_all_iff split: if_splits)
next
  case (DeleteChannel chid)
  with assms show ?thesis
    by (auto simp: keys_ok_def list_all_iff)
qed (use assms in auto)

end
